theory Spec2Isabelle
  imports Main "HOL-Library.Word"
begin

unbundle bit_operations_syntax

section \<open>Strings and the MD5 digest\<close>

text \<open>
  A Python \<open>str\<close> is modelled by the \<open>string\<close> of its UTF-8 bytes, one \<open>char\<close> per
  byte. The source only concatenates strings, compares them for equality, tests them
  for emptiness and encodes them with \<open>encode("utf-8")\<close>; on UTF-8 byte strings
  these are list append, list equality, the test against \<open>[]\<close> and the byte-wise
  reading \<open>encode_utf8\<close>. A \<open>str\<close> holding a lone surrogate has no UTF-8 form
  and is outside the model.

  \<open>hashlib.md5\<close> is the MD5 function of RFC 1321, written out below on byte lists.
\<close>

type_synonym byte = "8 word"
type_synonym u32 = "32 word"

definition encode_utf8 :: "string \<Rightarrow> byte list" where
  "encode_utf8 s = map (\<lambda>c. word_of_nat (of_char c)) s"

definition md5_shifts :: "nat list" where
  "md5_shifts =
     [7, 12, 17, 22, 7, 12, 17, 22, 7, 12, 17, 22, 7, 12, 17, 22,
      5, 9, 14, 20, 5, 9, 14, 20, 5, 9, 14, 20, 5, 9, 14, 20,
      4, 11, 16, 23, 4, 11, 16, 23, 4, 11, 16, 23, 4, 11, 16, 23,
      6, 10, 15, 21, 6, 10, 15, 21, 6, 10, 15, 21, 6, 10, 15, 21]"

definition md5_K :: "u32 list" where
  "md5_K =
     [0xd76aa478, 0xe8c7b756, 0x242070db, 0xc1bdceee, 0xf57c0faf, 0x4787c62a, 0xa8304613, 0xfd469501,
      0x698098d8, 0x8b44f7af, 0xffff5bb1, 0x895cd7be, 0x6b901122, 0xfd987193, 0xa679438e, 0x49b40821,
      0xf61e2562, 0xc040b340, 0x265e5a51, 0xe9b6c7aa, 0xd62f105d, 0x02441453, 0xd8a1e681, 0xe7d3fbc8,
      0x21e1cde6, 0xc33707d6, 0xf4d50d87, 0x455a14ed, 0xa9e3e905, 0xfcefa3f8, 0x676f02d9, 0x8d2a4c8a,
      0xfffa3942, 0x8771f681, 0x6d9d6122, 0xfde5380c, 0xa4beea44, 0x4bdecfa9, 0xf6bb4b60, 0xbebfbc70,
      0x289b7ec6, 0xeaa127fa, 0xd4ef3085, 0x04881d05, 0xd9d4d039, 0xe6db99e5, 0x1fa27cf8, 0xc4ac5665,
      0xf4292244, 0x432aff97, 0xab9423a7, 0xfc93a039, 0x655b59c3, 0x8f0ccc92, 0xffeff47d, 0x85845dd1,
      0x6fa87e4f, 0xfe2ce6e0, 0xa3014314, 0x4e0811a1, 0xf7537e82, 0xbd3af235, 0x2ad7d2bb, 0xeb86d391]"

text \<open>Little-endian reading and writing of 32-bit words.\<close>

definition le_word :: "byte list \<Rightarrow> u32" where
  "le_word bs = foldr (\<lambda>b w. push_bit 8 w OR ucast b) bs 0"

definition le_bytes :: "nat \<Rightarrow> nat \<Rightarrow> byte list" where
  "le_bytes k n = map (\<lambda>i. word_of_nat (n div 256 ^ i mod 256)) [0..<k]"

definition md5_pad :: "byte list \<Rightarrow> byte list" where
  "md5_pad bs =
     bs @ [0x80] @ replicate ((119 - length bs mod 64) mod 64) 0
        @ le_bytes 8 ((8 * length bs) mod 2 ^ 64)"

definition md5_blocks :: "byte list \<Rightarrow> u32 list list" where
  "md5_blocks bs =
     map (\<lambda>j. map (\<lambda>i. le_word (take 4 (drop (64 * j + 4 * i) bs))) [0..<16])
         [0..<length bs div 64]"

type_synonym md5_state = "u32 \<times> u32 \<times> u32 \<times> u32"

fun md5_step :: "u32 list \<Rightarrow> nat \<Rightarrow> md5_state \<Rightarrow> md5_state" where
  "md5_step M i (a, b, c, d) =
     (let (f, g) =
            (if i < 16 then ((b AND c) OR (NOT b AND d), i)
             else if i < 32 then ((d AND b) OR (NOT d AND c), (5 * i + 1) mod 16)
             else if i < 48 then (b XOR c XOR d, (3 * i + 5) mod 16)
             else (c XOR (b OR NOT d), (7 * i) mod 16))
      in (d, b + word_rotl (md5_shifts ! i) (f + a + md5_K ! i + M ! g), b, c))"

fun md5_block :: "md5_state \<Rightarrow> u32 list \<Rightarrow> md5_state" where
  "md5_block (a0, b0, c0, d0) M =
     (case fold (md5_step M) [0..<64] (a0, b0, c0, d0) of
        (a, b, c, d) \<Rightarrow> (a0 + a, b0 + b, c0 + c, d0 + d))"

definition md5_init :: md5_state where
  "md5_init = (0x67452301, 0xefcdab89, 0x98badcfe, 0x10325476)"

definition hashlib_md5 :: "byte list \<Rightarrow> byte list" where
  "hashlib_md5 bs =
     (case foldl md5_block md5_init (md5_blocks (md5_pad bs)) of
        (a, b, c, d) \<Rightarrow> concat (map (\<lambda>w. le_bytes 4 (unat w)) [a, b, c, d]))"

definition hex_digit :: "nat \<Rightarrow> char" where
  "hex_digit n = ''0123456789abcdef'' ! (n mod 16)"

definition hexdigest :: "byte list \<Rightarrow> string" where
  "hexdigest bs = concat (map (\<lambda>b. [hex_digit (unat b div 16), hex_digit (unat b)]) bs)"

section \<open>The manifest model (manifest.py)\<close>

text \<open>
  The pydantic models are records. Field names that occur in two models carry a prefix:
  \<open>OTA.content\<close> is \<open>ota_content\<close>, and \<open>PlatformRelease.version\<close> and
  \<open>PlatformRelease.md5\<close> are \<open>rel_version\<close> and \<open>rel_md5\<close>. The computed field
  \<open>Announcement.md5\<close> is the function \<open>Announcement_md5\<close>.
\<close>

record Announcement =
  title :: string
  content :: string
  confirm_require :: bool

definition Announcement_md5 :: "Announcement \<Rightarrow> string" where
  "Announcement_md5 a =
     (let combined = title a @ content a
      in hexdigest (hashlib_md5 (encode_utf8 combined)))"

record ChangelogEntry =
  version :: string
  changes :: string

record PlatformRelease =
  rel_version :: string
  force_ota :: bool
  url :: string
  rel_md5 :: string

record OTA =
  ota_content :: string
  changelog :: "ChangelogEntry list"
  android :: "PlatformRelease option"
  ios :: "PlatformRelease option"
  windows :: "PlatformRelease option"
  macos :: "PlatformRelease option"
  linux :: "PlatformRelease option"

record LoveACEManifest =
  announcement :: "Announcement option"
  ota :: "OTA option"

text \<open>\<open>LoveACEManifest()\<close>: both fields take their default \<open>None\<close>.\<close>

definition empty_manifest :: LoveACEManifest where
  "empty_manifest = \<lparr>announcement = None, ota = None\<rparr>"

text \<open>
  \<open>getattr(ota, platform, None)\<close> and \<open>setattr(ota, platform, release)\<close> on the five
  platform fields. The outer \<open>None\<close> stands for an attribute name that is not one of
  these fields, which the model does not cover; the commands return before they reach it.
\<close>

definition getattr_ota :: "OTA \<Rightarrow> string \<Rightarrow> PlatformRelease option option" where
  "getattr_ota o' p =
     (if p = ''android'' then Some (android o')
      else if p = ''ios'' then Some (ios o')
      else if p = ''windows'' then Some (windows o')
      else if p = ''macos'' then Some (macos o')
      else if p = ''linux'' then Some (linux o')
      else None)"

definition setattr_ota :: "OTA \<Rightarrow> string \<Rightarrow> PlatformRelease \<Rightarrow> OTA option" where
  "setattr_ota o' p r =
     (if p = ''android'' then Some (o'\<lparr>android := Some r\<rparr>)
      else if p = ''ios'' then Some (o'\<lparr>ios := Some r\<rparr>)
      else if p = ''windows'' then Some (o'\<lparr>windows := Some r\<rparr>)
      else if p = ''macos'' then Some (o'\<lparr>macos := Some r\<rparr>)
      else if p = ''linux'' then Some (o'\<lparr>linux := Some r\<rparr>)
      else None)"

section \<open>Errors and JSON values\<close>

text \<open>
  The first four errors are the \<open>typer.Exit(1)\<close> exits of cli.py, named as the
  specification names them. The others are the exceptions that leave a command
  uncaught: pydantic's \<open>ValidationError\<close>, an exception of the storage operator,
  an \<open>OSError\<close> of \<open>open\<close>, and an access to an attribute outside the model.
\<close>

datatype error =
    InvalidPlatform
  | FileNotFound
  | NoOtaConfigured
  | PlatformNotReleased
  | ValidationError
  | StorageError
  | OSError
  | AttributeError

text \<open>
  The Python value that \<open>json.loads\<close> returns. \<open>JNull\<close> is \<open>None\<close>; an object is
  the list of its items, read by key with \<open>map_of\<close>. JSON numbers are modelled as
  Python integers only.
\<close>

datatype json =
    JNull
  | JBool bool
  | JInt int
  | JStr string
  | JArr "json list"
  | JObj "(string \<times> json) list"

text \<open>Python truthiness, as \<open>if data:\<close> in \<open>load_manifest\<close> tests it.\<close>

fun py_truthy :: "json \<Rightarrow> bool" where
  "py_truthy JNull = False"
| "py_truthy (JBool b) = b"
| "py_truthy (JInt i) = (i \<noteq> 0)"
| "py_truthy (JStr s) = (s \<noteq> [])"
| "py_truthy (JArr xs) = (xs \<noteq> [])"
| "py_truthy (JObj kvs) = (kvs \<noteq> [])"

definition bind_r :: "error + 'a \<Rightarrow> ('a \<Rightarrow> error + 'b) \<Rightarrow> error + 'b" where
  "bind_r x f = (case x of Inl e \<Rightarrow> Inl e | Inr v \<Rightarrow> f v)"

fun sequence_r :: "(error + 'a) list \<Rightarrow> error + 'a list" where
  "sequence_r [] = Inr []"
| "sequence_r (x # xs) = bind_r x (\<lambda>v. bind_r (sequence_r xs) (\<lambda>vs. Inr (v # vs)))"

section \<open>Validation: \<open>model_validate\<close>\<close>

text \<open>
  pydantic's validation of a parsed document against the field declarations of
  manifest.py, in its default (lax) mode: a \<open>str\<close> field takes a string only; a
  \<open>bool\<close> field takes a boolean, the integers 0 and 1 and the usual spellings of
  true and false; a field declared with \<open>...\<close> is required; a field with a default
  may be missing; an \<open>Optional\<close> field takes \<open>None\<close>; keys that are not fields
  (the computed \<open>md5\<close> among them) are ignored; \<open>changelog\<close> takes at most 10 items.
\<close>

definition ascii_lower :: "char \<Rightarrow> char" where
  "ascii_lower c =
     (let n = (of_char c :: nat) in if 65 \<le> n \<and> n \<le> 90 then char_of (n + 32) else c)"

definition validate_str :: "json \<Rightarrow> error + string" where
  "validate_str j = (case j of JStr s \<Rightarrow> Inr s | _ \<Rightarrow> Inl ValidationError)"

definition validate_bool :: "json \<Rightarrow> error + bool" where
  "validate_bool j =
     (case j of
        JBool b \<Rightarrow> Inr b
      | JInt i \<Rightarrow> (if i = 0 then Inr False else if i = 1 then Inr True else Inl ValidationError)
      | JStr s \<Rightarrow>
          (if s = ''0'' \<or> map ascii_lower s \<in> set [''f'', ''n'', ''no'', ''off'', ''false'']
           then Inr False
           else if s = ''1'' \<or> map ascii_lower s \<in> set [''t'', ''y'', ''on'', ''yes'', ''true'']
           then Inr True
           else Inl ValidationError)
      | _ \<Rightarrow> Inl ValidationError)"

definition required :: "(string \<times> json) list \<Rightarrow> string \<Rightarrow> (json \<Rightarrow> error + 'a) \<Rightarrow> error + 'a" where
  "required kvs k v = (case map_of kvs k of None \<Rightarrow> Inl ValidationError | Some j \<Rightarrow> v j)"

definition with_default ::
  "(string \<times> json) list \<Rightarrow> string \<Rightarrow> 'a \<Rightarrow> (json \<Rightarrow> error + 'a) \<Rightarrow> error + 'a" where
  "with_default kvs k d v = (case map_of kvs k of None \<Rightarrow> Inr d | Some j \<Rightarrow> v j)"

definition validate_optional :: "(json \<Rightarrow> error + 'a) \<Rightarrow> json \<Rightarrow> error + 'a option" where
  "validate_optional v j = (case j of JNull \<Rightarrow> Inr None | _ \<Rightarrow> bind_r (v j) (\<lambda>x. Inr (Some x)))"

definition validate_Announcement :: "json \<Rightarrow> error + Announcement" where
  "validate_Announcement j =
     (case j of
        JObj kvs \<Rightarrow>
          bind_r (required kvs ''title'' validate_str) (\<lambda>t.
          bind_r (required kvs ''content'' validate_str) (\<lambda>c.
          bind_r (with_default kvs ''confirm_require'' False validate_bool) (\<lambda>r.
          Inr \<lparr>title = t, content = c, confirm_require = r\<rparr>)))
      | _ \<Rightarrow> Inl ValidationError)"

definition validate_ChangelogEntry :: "json \<Rightarrow> error + ChangelogEntry" where
  "validate_ChangelogEntry j =
     (case j of
        JObj kvs \<Rightarrow>
          bind_r (required kvs ''version'' validate_str) (\<lambda>v.
          bind_r (required kvs ''changes'' validate_str) (\<lambda>c.
          Inr \<lparr>version = v, changes = c\<rparr>))
      | _ \<Rightarrow> Inl ValidationError)"

definition validate_PlatformRelease :: "json \<Rightarrow> error + PlatformRelease" where
  "validate_PlatformRelease j =
     (case j of
        JObj kvs \<Rightarrow>
          bind_r (required kvs ''version'' validate_str) (\<lambda>v.
          bind_r (with_default kvs ''force_ota'' False validate_bool) (\<lambda>f.
          bind_r (required kvs ''url'' validate_str) (\<lambda>u.
          bind_r (required kvs ''md5'' validate_str) (\<lambda>m.
          Inr \<lparr>rel_version = v, force_ota = f, url = u, rel_md5 = m\<rparr>))))
      | _ \<Rightarrow> Inl ValidationError)"

definition validate_changelog :: "json \<Rightarrow> error + ChangelogEntry list" where
  "validate_changelog j =
     (case j of
        JArr xs \<Rightarrow>
          (if length xs > 10 then Inl ValidationError
           else sequence_r (map validate_ChangelogEntry xs))
      | _ \<Rightarrow> Inl ValidationError)"

definition validate_OTA :: "json \<Rightarrow> error + OTA" where
  "validate_OTA j =
     (case j of
        JObj kvs \<Rightarrow>
          bind_r (with_default kvs ''content'' [] validate_str) (\<lambda>c.
          bind_r (with_default kvs ''changelog'' [] validate_changelog) (\<lambda>l.
          bind_r (with_default kvs ''android'' None (validate_optional validate_PlatformRelease)) (\<lambda>a.
          bind_r (with_default kvs ''ios'' None (validate_optional validate_PlatformRelease)) (\<lambda>i.
          bind_r (with_default kvs ''windows'' None (validate_optional validate_PlatformRelease)) (\<lambda>w.
          bind_r (with_default kvs ''macos'' None (validate_optional validate_PlatformRelease)) (\<lambda>m.
          bind_r (with_default kvs ''linux'' None (validate_optional validate_PlatformRelease)) (\<lambda>x.
          Inr \<lparr>ota_content = c, changelog = l, android = a, ios = i, windows = w,
               macos = m, linux = x\<rparr>)))))))
      | _ \<Rightarrow> Inl ValidationError)"

definition model_validate :: "json \<Rightarrow> error + LoveACEManifest" where
  "model_validate j =
     (case j of
        JObj kvs \<Rightarrow>
          bind_r (with_default kvs ''announcement'' None (validate_optional validate_Announcement)) (\<lambda>a.
          bind_r (with_default kvs ''ota'' None (validate_optional validate_OTA)) (\<lambda>t.
          Inr \<lparr>announcement = a, ota = t\<rparr>))
      | _ \<Rightarrow> Inl ValidationError)"

section \<open>Serialisation: \<open>model_dump_json(exclude_none=True)\<close>\<close>

text \<open>
  The document that \<open>save_manifest\<close> writes, as the JSON value its text denotes:
  every field in declaration order, the computed \<open>md5\<close> of an announcement after
  its fields, and a field whose value is \<open>None\<close> left out.
\<close>

definition exclude_none :: "string \<Rightarrow> ('a \<Rightarrow> json) \<Rightarrow> 'a option \<Rightarrow> (string \<times> json) list" where
  "exclude_none k f x = (case x of None \<Rightarrow> [] | Some v \<Rightarrow> [(k, f v)])"

definition dump_Announcement :: "Announcement \<Rightarrow> json" where
  "dump_Announcement a =
     JObj [(''title'', JStr (title a)),
           (''content'', JStr (content a)),
           (''confirm_require'', JBool (confirm_require a)),
           (''md5'', JStr (Announcement_md5 a))]"

definition dump_ChangelogEntry :: "ChangelogEntry \<Rightarrow> json" where
  "dump_ChangelogEntry e = JObj [(''version'', JStr (version e)), (''changes'', JStr (changes e))]"

definition dump_PlatformRelease :: "PlatformRelease \<Rightarrow> json" where
  "dump_PlatformRelease r =
     JObj [(''version'', JStr (rel_version r)),
           (''force_ota'', JBool (force_ota r)),
           (''url'', JStr (url r)),
           (''md5'', JStr (rel_md5 r))]"

definition dump_OTA :: "OTA \<Rightarrow> json" where
  "dump_OTA o' =
     JObj ([(''content'', JStr (ota_content o')),
            (''changelog'', JArr (map dump_ChangelogEntry (changelog o')))]
           @ exclude_none ''android'' dump_PlatformRelease (android o')
           @ exclude_none ''ios'' dump_PlatformRelease (ios o')
           @ exclude_none ''windows'' dump_PlatformRelease (windows o')
           @ exclude_none ''macos'' dump_PlatformRelease (macos o')
           @ exclude_none ''linux'' dump_PlatformRelease (linux o'))"

definition model_dump :: "LoveACEManifest \<Rightarrow> json" where
  "model_dump m =
     JObj (exclude_none ''announcement'' dump_Announcement (announcement m)
           @ exclude_none ''ota'' dump_OTA (ota m))"

section \<open>The storage client (s3_client.py) and the local file system\<close>

text \<open>
  An object of the store is either a JSON text, held as the value it denotes, or
  bytes that are not the UTF-8 form of a JSON text (an installer, a truncated or
  corrupt document). A local path names a regular file with its bytes, a directory,
  or nothing. \<open>read_fails\<close> and \<open>write_fails\<close> say for which keys the operator
  raises (network, permissions); a read of a missing key raises as well. Every access
  to the file system and to the store is appended to \<open>trace\<close>, before its outcome.
\<close>

datatype stored = Text json | Blob "byte list"

datatype fs_entry = RegularFile "byte list" | Directory

datatype event =
    LocalStat string
  | LocalRead string
  | RemoteRead string
  | RemoteWrite string

record world =
  files :: "string \<Rightarrow> fs_entry option"
  objects :: "string \<Rightarrow> stored option"
  read_fails :: "string \<Rightarrow> bool"
  write_fails :: "string \<Rightarrow> bool"
  cdn_base_url :: string
  s3_bucket :: string
  full_capability :: string
  trace :: "event list"

definition log_event :: "event \<Rightarrow> world \<Rightarrow> world" where
  "log_event e w = w\<lparr>trace := trace w @ [e]\<rparr>"

text \<open>\<open>self.op.read(key)\<close> and \<open>self.op.write(key, data)\<close>.\<close>

definition op_read :: "world \<Rightarrow> string \<Rightarrow> (error + stored) \<times> world" where
  "op_read w key =
     (let w' = log_event (RemoteRead key) w
      in if read_fails w key then (Inl StorageError, w')
         else case objects w key of
                None \<Rightarrow> (Inl StorageError, w')
              | Some s \<Rightarrow> (Inr s, w'))"

definition op_write :: "world \<Rightarrow> string \<Rightarrow> stored \<Rightarrow> (error + unit) \<times> world" where
  "op_write w key s =
     (let w' = log_event (RemoteWrite key) w
      in if write_fails w key then (Inl StorageError, w')
         else (Inr (), w'\<lparr>objects := (objects w')(key \<mapsto> s)\<rparr>))"

definition rstrip_slash :: "string \<Rightarrow> string" where
  "rstrip_slash s = rev (dropWhile (\<lambda>c. c = CHR ''/'') (rev s))"

definition get_url :: "world \<Rightarrow> string \<Rightarrow> string" where
  "get_url w s3_key =
     (if cdn_base_url w \<noteq> [] then rstrip_slash (cdn_base_url w) @ ''/'' @ s3_key
      else full_capability w @ ''/'' @ s3_bucket w @ ''/'' @ s3_key)"

text \<open>
  \<open>upload_file\<close> opens the local file, writes its bytes and returns the public URL.
  The content type it passes is metadata of the object and is not modelled.
\<close>

definition upload_file :: "world \<Rightarrow> string \<Rightarrow> string \<Rightarrow> (error + string) \<times> world" where
  "upload_file w local_path s3_key =
     (let w1 = log_event (LocalRead local_path) w
      in case files w local_path of
           Some (RegularFile bs) \<Rightarrow>
             (case op_write w1 s3_key (Blob bs) of
                (Inl e, w2) \<Rightarrow> (Inl e, w2)
              | (Inr u, w2) \<Rightarrow> (Inr (get_url w2 s3_key), w2))
         | _ \<Rightarrow> (Inl OSError, w1))"

definition upload_content :: "world \<Rightarrow> stored \<Rightarrow> string \<Rightarrow> (error + string) \<times> world" where
  "upload_content w content' s3_key =
     (case op_write w s3_key content' of
        (Inl e, w1) \<Rightarrow> (Inl e, w1)
      | (Inr u, w1) \<Rightarrow> (Inr (get_url w1 s3_key), w1))"

text \<open>
  \<open>get_json\<close>: every exception of the read, of the decoding and of \<open>json.loads\<close> is
  caught and gives \<open>None\<close>.
\<close>

definition get_json :: "world \<Rightarrow> string \<Rightarrow> json \<times> world" where
  "get_json w s3_key =
     (case op_read w s3_key of
        (Inl e, w1) \<Rightarrow> (JNull, w1)
      | (Inr (Blob bs), w1) \<Rightarrow> (JNull, w1)
      | (Inr (Text j), w1) \<Rightarrow> (j, w1))"

section \<open>The commands (cli.py)\<close>

definition PLATFORMS :: "string list" where
  "PLATFORMS = [''android'', ''ios'', ''windows'', ''macos'', ''linux'']"

definition MANIFEST_KEY :: string where
  "MANIFEST_KEY = ''loveace/manifest.json''"

text \<open>
  \<open>get_file_md5\<close> feeds the file to MD5 in chunks of 8192 bytes; the digest is that of
  the whole content.
\<close>

definition get_file_md5 :: "world \<Rightarrow> string \<Rightarrow> (error + string) \<times> world" where
  "get_file_md5 w file_path =
     (let w1 = log_event (LocalRead file_path) w
      in case files w file_path of
           Some (RegularFile bs) \<Rightarrow> (Inr (hexdigest (hashlib_md5 bs)), w1)
         | _ \<Rightarrow> (Inl OSError, w1))"

definition load_manifest :: "world \<Rightarrow> (error + LoveACEManifest) \<times> world" where
  "load_manifest w =
     (case get_json w MANIFEST_KEY of
        (data, w1) \<Rightarrow>
          if py_truthy data then (model_validate data, w1)
          else (Inr empty_manifest, w1))"

definition save_manifest :: "world \<Rightarrow> LoveACEManifest \<Rightarrow> (error + string) \<times> world" where
  "save_manifest w manifest =
     (let content' = Text (model_dump manifest)
      in upload_content w content' MANIFEST_KEY)"

subsection \<open>announce and clear-announce\<close>

text \<open>Lines 62 to 67 and line 86: the change of the manifest in memory.\<close>

definition announce_manifest :: "LoveACEManifest \<Rightarrow> string \<Rightarrow> string \<Rightarrow> bool \<Rightarrow> LoveACEManifest" where
  "announce_manifest manifest title' content' confirm_require' =
     (let announcement' = \<lparr>title = title', content = content', confirm_require = confirm_require'\<rparr>
      in manifest\<lparr>announcement := Some announcement'\<rparr>)"

definition clear_announce_manifest :: "LoveACEManifest \<Rightarrow> LoveACEManifest" where
  "clear_announce_manifest manifest = manifest\<lparr>announcement := None\<rparr>"

definition announce :: "world \<Rightarrow> string \<Rightarrow> string \<Rightarrow> bool \<Rightarrow> (error + string) \<times> world" where
  "announce w title' content' confirm_require' =
     (case load_manifest w of
        (Inl e, w1) \<Rightarrow> (Inl e, w1)
      | (Inr manifest, w1) \<Rightarrow>
          save_manifest w1 (announce_manifest manifest title' content' confirm_require'))"

definition clear_announce :: "world \<Rightarrow> (error + string) \<times> world" where
  "clear_announce w =
     (case load_manifest w of
        (Inl e, w1) \<Rightarrow> (Inl e, w1)
      | (Inr manifest, w1) \<Rightarrow> save_manifest w1 (clear_announce_manifest manifest))"

subsection \<open>release\<close>

text \<open>
  Lines 126 to 134: the new entry, if any, then the old entries of another version
  while fewer than 10 are kept.
\<close>

definition keep_old :: "string \<Rightarrow> ChangelogEntry list \<Rightarrow> ChangelogEntry list \<Rightarrow> ChangelogEntry list" where
  "keep_old version' old changelogs =
     fold (\<lambda>entry acc. if version entry \<noteq> version' \<and> length acc < 10 then acc @ [entry] else acc)
          old changelogs"

definition build_changelogs :: "LoveACEManifest \<Rightarrow> string \<Rightarrow> string \<Rightarrow> ChangelogEntry list" where
  "build_changelogs manifest version' changelog' =
     (let changelogs = (if changelog' \<noteq> [] then [\<lparr>version = version', changes = changelog'\<rparr>] else [])
      in case ota manifest of
           None \<Rightarrow> changelogs
         | Some o' \<Rightarrow>
             if changelog o' \<noteq> [] then keep_old version' (changelog o') changelogs
             else changelogs)"

text \<open>
  Lines 126 to 159: the change of the manifest in memory, once the installer is hashed
  and uploaded. A new \<open>OTA\<close> is built with at most one changelog entry, which its
  validation accepts.
\<close>

definition release_manifest ::
  "LoveACEManifest \<Rightarrow> string \<Rightarrow> string \<Rightarrow> bool \<Rightarrow> string \<Rightarrow> string \<Rightarrow> string \<Rightarrow> string
     \<Rightarrow> error + LoveACEManifest" where
  "release_manifest manifest version' platform force content' changelog' download_url file_md5 =
     (let changelogs = build_changelogs manifest version' changelog';
          ota' = (case ota manifest of
                    Some o' \<Rightarrow>
                      (let o1 = o'\<lparr>changelog := changelogs\<rparr>
                       in if content' \<noteq> [] then o1\<lparr>ota_content := content'\<rparr> else o1)
                  | None \<Rightarrow>
                      \<lparr>ota_content = content', changelog = changelogs, android = None,
                       ios = None, windows = None, macos = None, linux = None\<rparr>);
          platform_release =
            \<lparr>rel_version = version', force_ota = force, url = download_url, rel_md5 = file_md5\<rparr>
      in case setattr_ota ota' platform platform_release of
           None \<Rightarrow> Inl AttributeError
         | Some ota'' \<Rightarrow> Inr (manifest\<lparr>ota := Some ota''\<rparr>))"

text \<open>A \<open>Path\<close>, with the two attributes the command reads: \<open>str(file)\<close> and \<open>file.name\<close>.\<close>

record Path =
  path_str :: string
  name :: string

definition release_key :: "string \<Rightarrow> string \<Rightarrow> Path \<Rightarrow> string" where
  "release_key platform version' file =
     ''loveace/releases/'' @ platform @ ''/'' @ version' @ ''/'' @ name file"

definition release ::
  "world \<Rightarrow> string \<Rightarrow> string \<Rightarrow> Path \<Rightarrow> bool \<Rightarrow> string \<Rightarrow> string \<Rightarrow> (error + string) \<times> world" where
  "release w version' platform file force content' changelog' =
     (if platform \<notin> set PLATFORMS then (Inl InvalidPlatform, w)
      else
        let w0 = log_event (LocalStat (path_str file)) w
        in if files w (path_str file) = None then (Inl FileNotFound, w0)
           else
             case load_manifest w0 of
               (Inl e, w1) \<Rightarrow> (Inl e, w1)
             | (Inr manifest, w1) \<Rightarrow>
                 (case get_file_md5 w1 (path_str file) of
                    (Inl e, w2) \<Rightarrow> (Inl e, w2)
                  | (Inr file_md5, w2) \<Rightarrow>
                      (let s3_key = release_key platform version' file
                       in case upload_file w2 (path_str file) s3_key of
                            (Inl e, w3) \<Rightarrow> (Inl e, w3)
                          | (Inr download_url, w3) \<Rightarrow>
                              (case release_manifest manifest version' platform force content'
                                      changelog' download_url file_md5 of
                                 Inl e \<Rightarrow> (Inl e, w3)
                               | Inr manifest' \<Rightarrow> save_manifest w3 manifest'))))"

subsection \<open>set-force\<close>

text \<open>Lines 245 to 256: the checks on the loaded manifest and the change of the flag.\<close>

definition set_force_manifest :: "LoveACEManifest \<Rightarrow> string \<Rightarrow> bool \<Rightarrow> error + LoveACEManifest" where
  "set_force_manifest manifest platform force =
     (case ota manifest of
        None \<Rightarrow> Inl NoOtaConfigured
      | Some o' \<Rightarrow>
          (case getattr_ota o' platform of
             None \<Rightarrow> Inl AttributeError
           | Some None \<Rightarrow> Inl PlatformNotReleased
           | Some (Some release') \<Rightarrow>
               (case setattr_ota o' platform (release'\<lparr>force_ota := force\<rparr>) of
                  None \<Rightarrow> Inl AttributeError
                | Some o'' \<Rightarrow> Inr (manifest\<lparr>ota := Some o''\<rparr>))))"

definition set_force :: "world \<Rightarrow> string \<Rightarrow> bool \<Rightarrow> (error + string) \<times> world" where
  "set_force w platform force =
     (if platform \<notin> set PLATFORMS then (Inl InvalidPlatform, w)
      else
        case load_manifest w of
          (Inl e, w1) \<Rightarrow> (Inl e, w1)
        | (Inr manifest, w1) \<Rightarrow>
            (case set_force_manifest manifest platform force of
               Inl e \<Rightarrow> (Inl e, w1)
             | Inr manifest' \<Rightarrow> save_manifest w1 manifest'))"

section \<open>Sequences of releases\<close>

text \<open>
  The arguments of one run of lines 126 to 159, and a sequence of runs from a given
  manifest: the manifest each run leaves is the one the next run starts from.
\<close>

record release_args =
  r_version :: string
  r_platform :: string
  r_force :: bool
  r_content :: string
  r_changelog :: string
  r_url :: string
  r_md5 :: string

fun publish_all :: "LoveACEManifest \<Rightarrow> release_args list \<Rightarrow> error + LoveACEManifest" where
  "publish_all m [] = Inr m"
| "publish_all m (c # cs) =
     (case release_manifest m (r_version c) (r_platform c) (r_force c) (r_content c)
             (r_changelog c) (r_url c) (r_md5 c) of
        Inl e \<Rightarrow> Inl e
      | Inr m' \<Rightarrow> publish_all m' cs)"

text \<open>The bound and the distinctness of versions that every release keeps.\<close>

definition changelog_ok :: "LoveACEManifest \<Rightarrow> bool" where
  "changelog_ok m =
     (case ota m of
        None \<Rightarrow> True
      | Some o' \<Rightarrow> length (changelog o') \<le> 10 \<and> distinct (map version (changelog o')))"

text \<open>Two releases of the same version, as in the scenario of the specification.\<close>

definition call1 :: release_args where
  "call1 = \<lparr>r_version = ''1.0.0'', r_platform = ''android'', r_force = False, r_content = [],
            r_changelog = ''Initial'', r_url = ''u1'', r_md5 = ''h1''\<rparr>"

definition call2 :: release_args where
  "call2 = \<lparr>r_version = ''1.0.0'', r_platform = ''android'', r_force = False, r_content = [],
            r_changelog = ''Initial fix'', r_url = ''u2'', r_md5 = ''h2''\<rparr>"

text \<open>
  The same version once more, for another platform and with the default, empty
  \<open>--changelog\<close>.
\<close>

definition call3 :: release_args where
  "call3 = \<lparr>r_version = ''1.0.0'', r_platform = ''ios'', r_force = False, r_content = [],
            r_changelog = [], r_url = ''u3'', r_md5 = ''h3''\<rparr>"

section \<open>Example manifests\<close>

text \<open>
  A manifest with one release, for Windows, and no announcement; and the same manifest
  with an announcement.
\<close>

definition example_release :: PlatformRelease where
  "example_release =
     \<lparr>rel_version = ''1.0.1'', force_ota = True,
      url = ''https://cdn.example/loveace/releases/windows/1.0.1/app.exe'', rel_md5 = ''def456''\<rparr>"

definition example_ota :: OTA where
  "example_ota =
     \<lparr>ota_content = ''Improvements included'',
      changelog = [\<lparr>version = ''1.0.1'', changes = ''First release''\<rparr>],
      android = None, ios = None, windows = Some example_release, macos = None, linux = None\<rparr>"

definition example_manifest :: LoveACEManifest where
  "example_manifest = \<lparr>announcement = None, ota = Some example_ota\<rparr>"

definition example_announcement :: Announcement where
  "example_announcement = \<lparr>title = ''Maintenance'', content = ''Tonight'', confirm_require = True\<rparr>"

definition announced_manifest :: LoveACEManifest where
  "announced_manifest = \<lparr>announcement = Some example_announcement, ota = Some example_ota\<rparr>"

section \<open>The declared bound and what a document leaves out\<close>

text \<open>
  The constraint \<open>max_length=10\<close> that manifest.py declares for \<open>OTA.changelog\<close>:
  every manifest that validation returns satisfies it, and the commands keep it.
\<close>

definition within_max_length :: "LoveACEManifest \<Rightarrow> bool" where
  "within_max_length m = (case ota m of None \<Rightarrow> True | Some o' \<Rightarrow> length (changelog o') \<le> 10)"

text \<open>
  A document has no \<open>null\<close> and no empty object as the value of a key or as an item of
  an array, at any depth.
\<close>

fun no_null :: "json \<Rightarrow> bool" where
  "no_null (JObj kvs) = (\<forall>kv \<in> set kvs. snd kv \<noteq> JNull \<and> snd kv \<noteq> JObj [] \<and> no_null (snd kv))"
| "no_null (JArr xs) = (\<forall>x \<in> set xs. x \<noteq> JNull \<and> x \<noteq> JObj [] \<and> no_null x)"
| "no_null j = True"

section \<open>Example worlds\<close>

text \<open>
  A store that holds the document of \<open>example_manifest\<close>, a store that holds nothing,
  and a store whose manifest object is not a JSON text; in each, one local installer,
  no failing key and an empty trace.
\<close>

definition example_file :: Path where
  "example_file = \<lparr>path_str = ''build/app.apk'', name = ''app.apk''\<rparr>"

definition example_world :: world where
  "example_world =
     \<lparr>files = [''build/app.apk'' \<mapsto> RegularFile [0x50, 0x4b]],
      objects = [MANIFEST_KEY \<mapsto> Text (model_dump example_manifest)],
      read_fails = (\<lambda>k. False), write_fails = (\<lambda>k. False),
      cdn_base_url = ''https://cdn.example/'', s3_bucket = ''bucket'', full_capability = ''s3'',
      trace = []\<rparr>"

definition empty_world :: world where
  "empty_world = example_world\<lparr>objects := (\<lambda>k. None)\<rparr>"

definition corrupt_world :: world where
  "corrupt_world = example_world\<lparr>objects := [MANIFEST_KEY \<mapsto> Blob [0x7b, 0x22]]\<rparr>"

text \<open>The store that holds the document of \<open>announced_manifest\<close>.\<close>

definition announced_world :: world where
  "announced_world =
     example_world\<lparr>objects := [MANIFEST_KEY \<mapsto> Text (model_dump announced_manifest)]\<rparr>"

section \<open>Properties\<close>

section \<open>The changelog\<close>

lemma keep_old_eq:
  "keep_old v old acc = acc @ take (10 - length acc) (filter (\<lambda>e. version e \<noteq> v) old)"
  unfolding keep_old_def
proof (induction old arbitrary: acc)
  case Nil
  then show ?case by simp
next
  case (Cons x xs)
  show ?case
  proof (cases "version x \<noteq> v \<and> length acc < 10")
    case True
    then have "10 - length acc = Suc (10 - length (acc @ [x]))" by (simp; arith)
    with True Cons [of "acc @ [x]"] show ?thesis by simp
  next
    case False
    with Cons [of acc] show ?thesis by auto
  qed
qed

lemma build_changelogs_eq:
  "build_changelogs m v cl =
     take 10 ((if cl \<noteq> [] then [\<lparr>version = v, changes = cl\<rparr>] else [])
              @ filter (\<lambda>e. version e \<noteq> v) (case ota m of None \<Rightarrow> [] | Some o' \<Rightarrow> changelog o'))"
  by (auto simp: build_changelogs_def keep_old_eq split: option.splits)

lemma setattr_ota_changelog:
  "setattr_ota o' p r = Some o'' \<Longrightarrow> changelog o'' = changelog o' \<and> ota_content o'' = ota_content o'"
  by (auto simp: setattr_ota_def split: if_splits)

lemma setattr_ota_platform:
  "p \<in> set PLATFORMS \<Longrightarrow> \<exists>o''. setattr_ota o' p r = Some o''"
  by (auto simp: setattr_ota_def PLATFORMS_def)

lemma release_manifest_changelog:
  "release_manifest m v p f c cl u md = Inr m' \<Longrightarrow>
     \<exists>o''. ota m' = Some o'' \<and> changelog o'' = build_changelogs m v cl"
  by (auto simp: release_manifest_def Let_def dest!: setattr_ota_changelog split: option.splits if_splits)

lemma distinct_filter_version:
  "distinct (map version xs) \<Longrightarrow> distinct (map version (filter (\<lambda>e. version e \<noteq> v) xs))"
  by (induction xs) auto

lemma distinct_take_map: "distinct (map f xs) \<Longrightarrow> distinct (map f (take n xs))"
  by (simp add: take_map [symmetric] distinct_take)

lemma build_changelogs_ok:
  assumes "changelog_ok m"
  shows "length (build_changelogs m v cl) \<le> 10"
    and "distinct (map version (build_changelogs m v cl))"
proof -
  show "length (build_changelogs m v cl) \<le> 10"
    by (simp add: build_changelogs_eq)
  let ?old = "case ota m of None \<Rightarrow> [] | Some o' \<Rightarrow> changelog o'"
  from assms have "distinct (map version ?old)"
    by (auto simp: changelog_ok_def split: option.splits)
  then have d: "distinct (map version (filter (\<lambda>e. version e \<noteq> v) ?old))"
    by (rule distinct_filter_version)
  have "distinct (map version ((if cl \<noteq> [] then [\<lparr>version = v, changes = cl\<rparr>] else [])
              @ filter (\<lambda>e. version e \<noteq> v) ?old))"
    using d by auto
  then show "distinct (map version (build_changelogs m v cl))"
    unfolding build_changelogs_eq by (rule distinct_take_map)
qed

lemma release_manifest_ok:
  assumes "changelog_ok m" and "release_manifest m v p f c cl u md = Inr m'"
  shows "changelog_ok m'"
proof -
  from release_manifest_changelog [OF assms(2)]
  obtain o'' where "ota m' = Some o''" "changelog o'' = build_changelogs m v cl" by blast
  with build_changelogs_ok [OF assms(1), of v cl] show ?thesis
    by (simp add: changelog_ok_def)
qed

lemma release_manifest_total:
  assumes "p \<in> set PLATFORMS"
  shows "\<exists>m'. release_manifest m v p f c cl u md = Inr m'"
proof -
  have "setattr_ota o' p r \<noteq> None" for o' r
    using setattr_ota_platform [OF assms, of o' r] by auto
  then show ?thesis
    by (auto simp: release_manifest_def Let_def split: option.splits)
qed

lemma build_changelogs_head:
  "cl \<noteq> [] \<Longrightarrow> take 1 (build_changelogs m v cl) = [\<lparr>version = v, changes = cl\<rparr>]"
  by (simp add: build_changelogs_eq)

lemma build_changelogs_supersede:
  "e \<in> set (build_changelogs m v cl) \<Longrightarrow> version e = v \<Longrightarrow>
     cl \<noteq> [] \<and> e = \<lparr>version = v, changes = cl\<rparr>"
  by (auto simp: build_changelogs_eq dest!: in_set_takeD split: if_splits)

lemma publish_all_ok:
  "changelog_ok m \<Longrightarrow> \<forall>c \<in> set calls. r_platform c \<in> set PLATFORMS \<Longrightarrow>
     \<exists>m'. publish_all m calls = Inr m' \<and> changelog_ok m'"
proof (induction calls arbitrary: m)
  case Nil
  then show ?case by simp
next
  case (Cons c cs)
  from Cons.prems(2) have "r_platform c \<in> set PLATFORMS" by simp
  from release_manifest_total [OF this]
  obtain m1 where m1: "release_manifest m (r_version c) (r_platform c) (r_force c) (r_content c)
             (r_changelog c) (r_url c) (r_md5 c) = Inr m1" by blast
  have "changelog_ok m1" by (rule release_manifest_ok [OF Cons.prems(1) m1])
  with Cons.IH [of m1] Cons.prems(2) m1 show ?case by simp
qed

lemma publish_all_snoc:
  "publish_all m (cs @ [c]) =
     (case publish_all m cs of
        Inl e \<Rightarrow> Inl e
      | Inr m' \<Rightarrow> release_manifest m' (r_version c) (r_platform c) (r_force c) (r_content c)
             (r_changelog c) (r_url c) (r_md5 c))"
  by (induction cs arbitrary: m) (auto split: sum.splits)

text \<open>
  What holds of every sequence of releases on valid platforms, from the empty manifest:
  each release succeeds, and the changelog has at most 10 entries and at most one entry
  for each version. After the last release, if it gave a changelog text, its entry is the
  first one, and an entry of the released version is never an old one. With no text
  given, no entry of the released version remains at all.
\<close>

theorem changelog_invariant:
  assumes "\<forall>c \<in> set calls. r_platform c \<in> set PLATFORMS"
  shows "\<exists>m. publish_all empty_manifest calls = Inr m
           \<and> (calls \<noteq> [] \<longrightarrow> ota m \<noteq> None)
           \<and> (\<forall>o'. ota m = Some o' \<longrightarrow>
                 length (changelog o') \<le> 10
               \<and> distinct (map version (changelog o'))
               \<and> (\<forall>cs c. calls = cs @ [c] \<longrightarrow>
                     (r_changelog c \<noteq> [] \<longrightarrow>
                        take 1 (changelog o') = [\<lparr>version = r_version c, changes = r_changelog c\<rparr>])
                   \<and> (\<forall>e \<in> set (changelog o'). version e = r_version c \<longrightarrow>
                        r_changelog c \<noteq> [] \<and> e = \<lparr>version = r_version c, changes = r_changelog c\<rparr>)))"
proof -
  have ok0: "changelog_ok empty_manifest"
    by (simp add: changelog_ok_def empty_manifest_def)
  from publish_all_ok [OF ok0 assms]
  obtain m where m: "publish_all empty_manifest calls = Inr m" and ok: "changelog_ok m" by blast
  have last: "ota m \<noteq> None \<and> (\<forall>o'. ota m = Some o' \<longrightarrow>
         (r_changelog c \<noteq> [] \<longrightarrow>
            take 1 (changelog o') = [\<lparr>version = r_version c, changes = r_changelog c\<rparr>])
       \<and> (\<forall>e \<in> set (changelog o'). version e = r_version c \<longrightarrow>
            r_changelog c \<noteq> [] \<and> e = \<lparr>version = r_version c, changes = r_changelog c\<rparr>))"
    if "calls = cs @ [c]" for cs c
  proof -
    from m that obtain m0 where
      step: "release_manifest m0 (r_version c) (r_platform c) (r_force c) (r_content c)
               (r_changelog c) (r_url c) (r_md5 c) = Inr m"
      by (auto simp: publish_all_snoc split: sum.splits)
    from release_manifest_changelog [OF step]
    obtain o'' where o'': "ota m = Some o''"
      "changelog o'' = build_changelogs m0 (r_version c) (r_changelog c)" by blast
    show ?thesis
      using o'' build_changelogs_head [of "r_changelog c" m0 "r_version c"]
        build_changelogs_supersede [of _ m0 "r_version c" "r_changelog c"]
      by auto
  qed
  have "calls \<noteq> [] \<longrightarrow> ota m \<noteq> None"
  proof
    assume "calls \<noteq> []"
    then obtain cs c where "calls = cs @ [c]" by (metis rev_exhaust)
    from last [OF this] show "ota m \<noteq> None" by simp
  qed
  moreover have "\<forall>o'. ota m = Some o' \<longrightarrow>
                 length (changelog o') \<le> 10 \<and> distinct (map version (changelog o'))"
    using ok by (auto simp: changelog_ok_def split: option.splits)
  ultimately show ?thesis using m last by blast
qed

lemma publish_example:
  "publish_all empty_manifest [call1, call2] =
     Inr \<lparr>announcement = None,
          ota = Some \<lparr>ota_content = [],
                      changelog = [\<lparr>version = ''1.0.0'', changes = ''Initial fix''\<rparr>],
                      android = Some \<lparr>rel_version = ''1.0.0'', force_ota = False, url = ''u2'', rel_md5 = ''h2''\<rparr>,
                      ios = None, windows = None, macos = None, linux = None\<rparr>\<rparr>"
  by (simp add: call1_def call2_def empty_manifest_def release_manifest_def build_changelogs_def
      keep_old_def setattr_ota_def Let_def)

theorem changelog_invariant_witness:
  "r_platform call1 \<in> set PLATFORMS \<and> r_platform call2 \<in> set PLATFORMS
   \<and> (\<exists>m o'. publish_all empty_manifest [call1, call2] = Inr m \<and> ota m = Some o'
         \<and> changelog o' = [\<lparr>version = ''1.0.0'', changes = ''Initial fix''\<rparr>]
         \<and> length (changelog o') \<le> 10 \<and> distinct (map version (changelog o')))"
proof -
  have h: "\<forall>c \<in> set [call1, call2]. r_platform c \<in> set PLATFORMS"
    by (simp add: call1_def call2_def PLATFORMS_def)
  from changelog_invariant [OF h]
  obtain m where m: "publish_all empty_manifest [call1, call2] = Inr m"
    and inv: "\<forall>o'. ota m = Some o' \<longrightarrow>
                 length (changelog o') \<le> 10 \<and> distinct (map version (changelog o'))"
    by blast
  from m [unfolded publish_example] obtain o' where o': "ota m = Some o'"
    "changelog o' = [\<lparr>version = ''1.0.0'', changes = ''Initial fix''\<rparr>]"
    by auto
  have "r_platform call1 \<in> set PLATFORMS \<and> r_platform call2 \<in> set PLATFORMS"
    using h by simp
  with m inv o' show ?thesis by blast
qed

text \<open>
  Claim C1. The bounds of the claim hold (see \<open>changelog_invariant\<close>), but a release
  of an existing version does not always replace that version's entry. Version 1.0.0 is
  released for Android with the text "Initial" and then for iOS with no changelog text:
  after the first release the changelog holds the entry of 1.0.0, and after the second
  it is empty. The loop of lines 132 to 134 skips the old entry of the version although
  line 127 has appended no new one.
\<close>

theorem rerelease_without_text_drops_entry:
  "publish_all empty_manifest [call1] =
     Inr \<lparr>announcement = None,
          ota = Some \<lparr>ota_content = [],
                      changelog = [\<lparr>version = ''1.0.0'', changes = ''Initial''\<rparr>],
                      android = Some \<lparr>rel_version = ''1.0.0'', force_ota = False, url = ''u1'', rel_md5 = ''h1''\<rparr>,
                      ios = None, windows = None, macos = None, linux = None\<rparr>\<rparr>
   \<and> publish_all empty_manifest [call1, call3] =
     Inr \<lparr>announcement = None,
          ota = Some \<lparr>ota_content = [],
                      changelog = [],
                      android = Some \<lparr>rel_version = ''1.0.0'', force_ota = False, url = ''u1'', rel_md5 = ''h1''\<rparr>,
                      ios = Some \<lparr>rel_version = ''1.0.0'', force_ota = False, url = ''u3'', rel_md5 = ''h3''\<rparr>,
                      windows = None, macos = None, linux = None\<rparr>\<rparr>"
  by (simp add: call1_def call3_def empty_manifest_def release_manifest_def build_changelogs_def
      keep_old_def setattr_ota_def Let_def)



section \<open>A release in memory\<close>

lemma setattr_ota_cases:
  assumes "setattr_ota o' p r = Some o''"
  shows "(p = ''android'' \<and> o'' = o'\<lparr>android := Some r\<rparr>)
       \<or> (p = ''ios'' \<and> o'' = o'\<lparr>ios := Some r\<rparr>)
       \<or> (p = ''windows'' \<and> o'' = o'\<lparr>windows := Some r\<rparr>)
       \<or> (p = ''macos'' \<and> o'' = o'\<lparr>macos := Some r\<rparr>)
       \<or> (p = ''linux'' \<and> o'' = o'\<lparr>linux := Some r\<rparr>)"
  using assms unfolding setattr_ota_def by (simp split: if_splits)

lemma setattr_ota_frame:
  assumes "setattr_ota o' p r = Some o''"
  shows "ota_content o'' = ota_content o' \<and> changelog o'' = changelog o'
     \<and> getattr_ota o'' p = Some (Some r)
     \<and> (\<forall>q. q \<noteq> p \<longrightarrow> getattr_ota o'' q = getattr_ota o' q)"
  using setattr_ota_cases [OF assms]
  by (elim disjE conjE) (simp_all add: getattr_ota_def)

lemma getattr_ota_update:
  "getattr_ota (o'\<lparr>changelog := l\<rparr>) q = getattr_ota o' q"
  "getattr_ota (o'\<lparr>ota_content := c\<rparr>) q = getattr_ota o' q"
  by (simp_all add: getattr_ota_def)

lemma getattr_ota_fresh:
  assumes "q \<in> set PLATFORMS"
  shows "getattr_ota \<lparr>ota_content = c, changelog = l, android = None, ios = None,
                      windows = None, macos = None, linux = None\<rparr> q = Some None"
  using assms by (auto simp: getattr_ota_def PLATFORMS_def)

lemma release_manifest_Inr:
  assumes "release_manifest m v p f c cl u md = Inr m'"
  shows "announcement m' = announcement m
     \<and> (\<exists>o1 o''. ota m' = Some o''
          \<and> setattr_ota o1 p \<lparr>rel_version = v, force_ota = f, url = u, rel_md5 = md\<rparr> = Some o''
          \<and> changelog o1 = build_changelogs m v cl
          \<and> ota_content o1 = (case ota m of None \<Rightarrow> c
                               | Some o' \<Rightarrow> if c = [] then ota_content o' else c)
          \<and> (\<forall>q \<in> set PLATFORMS.
                getattr_ota o1 q = (case ota m of None \<Rightarrow> Some None | Some o' \<Rightarrow> getattr_ota o' q)))"
proof (cases "ota m")
  case None
  let ?o1 = "\<lparr>ota_content = c, changelog = build_changelogs m v cl, android = None, ios = None,
             windows = None, macos = None, linux = None\<rparr>"
  from assms None obtain o'' where
    "setattr_ota ?o1 p \<lparr>rel_version = v, force_ota = f, url = u, rel_md5 = md\<rparr> = Some o''"
    "m' = m\<lparr>ota := Some o''\<rparr>"
    by (auto simp: release_manifest_def Let_def split: option.splits)
  moreover have "\<forall>q \<in> set PLATFORMS. getattr_ota ?o1 q = Some None"
    using getattr_ota_fresh by blast
  ultimately show ?thesis using None by (intro conjI exI [of _ ?o1] exI [of _ o'']) simp_all
next
  case (Some o')
  let ?o1 = "if c \<noteq> [] then o'\<lparr>changelog := build_changelogs m v cl, ota_content := c\<rparr>
             else o'\<lparr>changelog := build_changelogs m v cl\<rparr>"
  from assms Some obtain o'' where
    "setattr_ota ?o1 p \<lparr>rel_version = v, force_ota = f, url = u, rel_md5 = md\<rparr> = Some o''"
    "m' = m\<lparr>ota := Some o''\<rparr>"
    by (auto simp: release_manifest_def Let_def split: option.splits if_splits)
  moreover have "\<forall>q \<in> set PLATFORMS. getattr_ota ?o1 q = getattr_ota o' q"
    by (simp add: getattr_ota_update)
  ultimately show ?thesis using Some by (intro conjI exI [of _ ?o1] exI [of _ o'']) simp_all
qed

text \<open>
  Claim C5. A release on a valid platform succeeds and leaves an \<open>OTA\<close> record. If
  the manifest had one, its shared content is the old content when the content given
  is empty, and the content given otherwise; if the manifest had none, the content of
  the new record is the content given.
\<close>

theorem release_shared_content:
  assumes "p \<in> set PLATFORMS"
  shows "\<exists>m' o''. release_manifest m v p f c cl u md = Inr m' \<and> ota m' = Some o''
           \<and> (\<forall>o'. ota m = Some o' \<and> c = [] \<longrightarrow> ota_content o'' = ota_content o')
           \<and> (\<forall>o'. ota m = Some o' \<and> c \<noteq> [] \<longrightarrow> ota_content o'' = c)
           \<and> (ota m = None \<longrightarrow> ota_content o'' = c)"
proof -
  from release_manifest_total [OF assms]
  obtain m' where m': "release_manifest m v p f c cl u md = Inr m'" by blast
  from release_manifest_Inr [OF m', THEN conjunct2] obtain o1 o'' where
    o'': "ota m' = Some o''" and
    s: "setattr_ota o1 p \<lparr>rel_version = v, force_ota = f, url = u, rel_md5 = md\<rparr> = Some o''" and
    c: "ota_content o1 = (case ota m of None \<Rightarrow> c | Some o' \<Rightarrow> if c = [] then ota_content o' else c)"
    by blast
  from setattr_ota_frame [OF s] have "ota_content o'' = ota_content o1" by (rule conjunct1)
  with c have "ota_content o'' = (case ota m of None \<Rightarrow> c | Some o' \<Rightarrow> if c = [] then ota_content o' else c)"
    by simp
  then have k: "(\<forall>o'. ota m = Some o' \<and> c = [] \<longrightarrow> ota_content o'' = ota_content o')
           \<and> (\<forall>o'. ota m = Some o' \<and> c \<noteq> [] \<longrightarrow> ota_content o'' = c)
           \<and> (ota m = None \<longrightarrow> ota_content o'' = c)"
    by simp
  show ?thesis
    apply (rule exI [of _ m'])
    apply (rule exI [of _ o''])
    apply (rule conjI [OF m'])
    apply (rule conjI [OF o''])
    apply (rule k)
    done
qed

theorem release_shared_content_witness:
  "''android'' \<in> set PLATFORMS
   \<and> (\<exists>m' o''. release_manifest example_manifest ''1.0.2'' ''android'' False [] ''Fixes'' ''u'' ''h'' = Inr m'
         \<and> ota m' = Some o'' \<and> ota_content o'' = ''Improvements included'')
   \<and> (\<exists>m' o''. release_manifest example_manifest ''1.0.2'' ''android'' False ''New'' ''Fixes'' ''u'' ''h'' = Inr m'
         \<and> ota m' = Some o'' \<and> ota_content o'' = ''New'')
   \<and> (\<exists>m' o''. release_manifest empty_manifest ''1.0.2'' ''android'' False ''New'' ''Fixes'' ''u'' ''h'' = Inr m'
         \<and> ota m' = Some o'' \<and> ota_content o'' = ''New'')"
proof -
  have p: "''android'' \<in> set PLATFORMS" by (simp add: PLATFORMS_def)
  have e: "ota example_manifest = Some example_ota"
    by (simp add: example_manifest_def)
  have e2: "ota_content example_ota = ''Improvements included''"
    by (simp add: example_ota_def)
  have e3: "ota empty_manifest = None"
    by (simp add: empty_manifest_def)
  have n: "''New'' \<noteq> []" by simp
  from release_shared_content [OF p, of example_manifest "''1.0.2''" False "[]" "''Fixes''" "''u''" "''h''"]
  obtain m1 o1 where
    "release_manifest example_manifest ''1.0.2'' ''android'' False [] ''Fixes'' ''u'' ''h'' = Inr m1"
    "ota m1 = Some o1"
    "\<forall>o'. ota example_manifest = Some o' \<and> [] = ([] :: string) \<longrightarrow> ota_content o1 = ota_content o'"
    by blast
  with e e2 have 1: "\<exists>m' o''. release_manifest example_manifest ''1.0.2'' ''android'' False [] ''Fixes'' ''u'' ''h'' = Inr m'
         \<and> ota m' = Some o'' \<and> ota_content o'' = ''Improvements included''"
    by metis
  from release_shared_content [OF p, of example_manifest "''1.0.2''" False "''New''" "''Fixes''" "''u''" "''h''"]
  obtain m2 o2 where
    "release_manifest example_manifest ''1.0.2'' ''android'' False ''New'' ''Fixes'' ''u'' ''h'' = Inr m2"
    "ota m2 = Some o2"
    "\<forall>o'. ota example_manifest = Some o' \<and> ''New'' \<noteq> [] \<longrightarrow> ota_content o2 = ''New''"
    by blast
  with e n have 2: "\<exists>m' o''. release_manifest example_manifest ''1.0.2'' ''android'' False ''New'' ''Fixes'' ''u'' ''h'' = Inr m'
         \<and> ota m' = Some o'' \<and> ota_content o'' = ''New''"
    by metis
  from release_shared_content [OF p, of empty_manifest "''1.0.2''" False "''New''" "''Fixes''" "''u''" "''h''"]
  obtain m3 o3 where
    "release_manifest empty_manifest ''1.0.2'' ''android'' False ''New'' ''Fixes'' ''u'' ''h'' = Inr m3"
    "ota m3 = Some o3"
    "ota empty_manifest = None \<longrightarrow> ota_content o3 = ''New''"
    by blast
  with e3 have 3: "\<exists>m' o''. release_manifest empty_manifest ''1.0.2'' ''android'' False ''New'' ''Fixes'' ''u'' ''h'' = Inr m'
         \<and> ota m' = Some o'' \<and> ota_content o'' = ''New''"
    by metis
  from p 1 2 3 show ?thesis by blast
qed

text \<open>
  Claim C4. A release on a valid platform \<open>p\<close> succeeds and leaves an \<open>OTA\<close> record
  in which the record of \<open>p\<close> is exactly the version, the flag, the URL and the checksum
  given, and the record of every other platform is the one the manifest had before:
  absent if it was absent (as all are when the manifest had no \<open>OTA\<close> record), and the
  same record if it was present.
\<close>

theorem release_platform_frame:
  assumes "p \<in> set PLATFORMS"
  shows "\<exists>m' o''. release_manifest m v p f c cl u md = Inr m' \<and> ota m' = Some o''
           \<and> getattr_ota o'' p = Some (Some \<lparr>rel_version = v, force_ota = f, url = u, rel_md5 = md\<rparr>)
           \<and> (\<forall>q \<in> set PLATFORMS. q \<noteq> p \<longrightarrow>
                 getattr_ota o'' q = (case ota m of None \<Rightarrow> Some None | Some o' \<Rightarrow> getattr_ota o' q))"
proof -
  from release_manifest_total [OF assms]
  obtain m' where m': "release_manifest m v p f c cl u md = Inr m'" by blast
  from release_manifest_Inr [OF m', THEN conjunct2] obtain o1 o'' where
    o'': "ota m' = Some o''" and
    s: "setattr_ota o1 p \<lparr>rel_version = v, force_ota = f, url = u, rel_md5 = md\<rparr> = Some o''" and
    g: "\<forall>q \<in> set PLATFORMS.
          getattr_ota o1 q = (case ota m of None \<Rightarrow> Some None | Some o' \<Rightarrow> getattr_ota o' q)"
    by blast
  note fr = setattr_ota_frame [OF s]
  from fr have a: "getattr_ota o'' p = Some (Some \<lparr>rel_version = v, force_ota = f, url = u, rel_md5 = md\<rparr>)"
    by (elim conjE)
  from fr have other: "\<forall>q. q \<noteq> p \<longrightarrow> getattr_ota o'' q = getattr_ota o1 q"
    by (elim conjE)
  have b: "\<forall>q \<in> set PLATFORMS. q \<noteq> p \<longrightarrow>
             getattr_ota o'' q = (case ota m of None \<Rightarrow> Some None | Some o' \<Rightarrow> getattr_ota o' q)"
  proof (intro ballI impI)
    fix q assume q: "q \<in> set PLATFORMS" "q \<noteq> p"
    from other q(2) have "getattr_ota o'' q = getattr_ota o1 q" by (elim allE impE)
    also from g q(1) have "\<dots> = (case ota m of None \<Rightarrow> Some None | Some o' \<Rightarrow> getattr_ota o' q)"
      by (rule bspec)
    finally show "getattr_ota o'' q = (case ota m of None \<Rightarrow> Some None | Some o' \<Rightarrow> getattr_ota o' q)" .
  qed
  show ?thesis
    apply (rule exI [of _ m'])
    apply (rule exI [of _ o''])
    apply (rule conjI [OF m'])
    apply (rule conjI [OF o''])
    apply (rule conjI [OF a])
    apply (rule b)
    done
qed

theorem release_platform_frame_witness:
  "''android'' \<in> set PLATFORMS \<and> ''windows'' \<in> set PLATFORMS \<and> ''ios'' \<in> set PLATFORMS
   \<and> (\<exists>m' o''. release_manifest example_manifest ''1.0.2'' ''android'' False [] ''Fixes'' ''u'' ''h'' = Inr m'
         \<and> ota m' = Some o''
         \<and> getattr_ota o'' ''android'' = Some (Some \<lparr>rel_version = ''1.0.2'', force_ota = False, url = ''u'', rel_md5 = ''h''\<rparr>)
         \<and> getattr_ota o'' ''windows'' = Some (Some example_release)
         \<and> getattr_ota o'' ''ios'' = Some None)"
proof -
  have p: "''android'' \<in> set PLATFORMS" "''windows'' \<in> set PLATFORMS" "''ios'' \<in> set PLATFORMS"
    by (simp_all add: PLATFORMS_def)
  have e: "ota example_manifest = Some example_ota"
    "getattr_ota example_ota ''windows'' = Some (Some example_release)"
    "getattr_ota example_ota ''ios'' = Some None"
    by (simp_all add: example_manifest_def example_ota_def getattr_ota_def)
  from release_platform_frame [OF p(1), of example_manifest "''1.0.2''" False "[]" "''Fixes''" "''u''" "''h''"]
  obtain m' o'' where
    m': "release_manifest example_manifest ''1.0.2'' ''android'' False [] ''Fixes'' ''u'' ''h'' = Inr m'"
      "ota m' = Some o''"
      "getattr_ota o'' ''android'' = Some (Some \<lparr>rel_version = ''1.0.2'', force_ota = False, url = ''u'', rel_md5 = ''h''\<rparr>)"
    and fr: "\<forall>q \<in> set PLATFORMS. q \<noteq> ''android'' \<longrightarrow>
                 getattr_ota o'' q = (case ota example_manifest of None \<Rightarrow> Some None | Some o' \<Rightarrow> getattr_ota o' q)"
    by blast
  from fr p(2) e have w: "getattr_ota o'' ''windows'' = Some (Some example_release)" by simp
  from fr p(3) e have i: "getattr_ota o'' ''ios'' = Some None" by simp
  from p m' w i show ?thesis by blast
qed

section \<open>The digest of an announcement\<close>

lemma hex_digit_inj:
  assumes "i < 16" and "j < 16" and "hex_digit i = hex_digit j"
  shows "i = j"
proof -
  have d: "distinct ''0123456789abcdef''" by simp
  have l: "length ''0123456789abcdef'' = 16" by simp
  from assms have "''0123456789abcdef'' ! i = ''0123456789abcdef'' ! j"
    by (simp add: hex_digit_def)
  with d l assms(1,2) show ?thesis
    by (simp only: nth_eq_iff_index_eq)
qed

lemma byte_hex_inj:
  fixes b c :: byte
  assumes "hex_digit (unat b div 16) = hex_digit (unat c div 16)"
    and "hex_digit (unat b) = hex_digit (unat c)"
  shows "b = c"
proof -
  have lb: "unat b < 256" and lc: "unat c < 256"
    by (rule order_less_le_trans [OF unsigned_less], simp)+
  then have "unat b div 16 < 16" "unat c div 16 < 16" by simp_all
  with assms(1) have h: "unat b div 16 = unat c div 16" by (rule hex_digit_inj [rotated 2])
  have "hex_digit (unat b mod 16) = hex_digit (unat c mod 16)"
    using assms(2) by (simp add: hex_digit_def)
  then have l: "unat b mod 16 = unat c mod 16"
    by (rule hex_digit_inj [rotated 2]) simp_all
  have "unat b = 16 * (unat b div 16) + unat b mod 16" by simp
  also have "\<dots> = 16 * (unat c div 16) + unat c mod 16" by (simp only: h l)
  also have "\<dots> = unat c" by simp
  finally show ?thesis by (simp add: word_unat_eq_iff)
qed

lemma hexdigest_inj:
  "hexdigest xs = hexdigest ys \<Longrightarrow> xs = ys"
proof (induction xs arbitrary: ys)
  case Nil
  then show ?case by (cases ys) (simp_all add: hexdigest_def)
next
  case (Cons x xs)
  show ?case
  proof (cases ys)
    case Nil
    with Cons.prems show ?thesis by (simp add: hexdigest_def)
  next
    case (Cons y ys')
    with Cons.prems have h: "hex_digit (unat x div 16) = hex_digit (unat y div 16)"
      "hex_digit (unat x) = hex_digit (unat y)" "hexdigest xs = hexdigest ys'"
      by (simp_all add: hexdigest_def)
    from byte_hex_inj [OF h(1,2)] Cons.IH [OF h(3)] Cons show ?thesis by simp
  qed
qed

text \<open>
  Two different pairs of title and content with the same digest: the digest is taken
  of the concatenation, which does not record where the title ends.
\<close>

theorem digest_collision:
  "(''a'', ''b'') \<noteq> (''ab'', [])
   \<and> Announcement_md5 \<lparr>title = ''a'', content = ''b'', confirm_require = False\<rparr>
     = Announcement_md5 \<lparr>title = ''ab'', content = [], confirm_require = False\<rparr>"
  by (simp add: Announcement_md5_def)

text \<open>
  Claim C2, amended. The digest is the MD5 hex digest of the UTF-8 bytes of title
  followed by content, so it is a function of that concatenation alone: announcements
  whose concatenations are equal, in particular those with equal title and equal
  content, have equal digests; and two digests differ exactly when the MD5 values of
  the two concatenations differ.
\<close>

theorem digest_of_concatenation:
  "Announcement_md5 a = hexdigest (hashlib_md5 (encode_utf8 (title a @ content a)))
   \<and> (title a @ content a = title b @ content b \<longrightarrow> Announcement_md5 a = Announcement_md5 b)
   \<and> (title a = title b \<and> content a = content b \<longrightarrow> Announcement_md5 a = Announcement_md5 b)
   \<and> (Announcement_md5 a \<noteq> Announcement_md5 b)
       = (hashlib_md5 (encode_utf8 (title a @ content a))
            \<noteq> hashlib_md5 (encode_utf8 (title b @ content b)))"
  using hexdigest_inj
    [of "hashlib_md5 (encode_utf8 (title a @ content a))"
        "hashlib_md5 (encode_utf8 (title b @ content b))"]
  by (auto simp: Announcement_md5_def)

theorem digest_of_concatenation_witness:
  "title \<lparr>title = ''Main'', content = ''tenanceTonight'', confirm_require = False\<rparr>
     @ content \<lparr>title = ''Main'', content = ''tenanceTonight'', confirm_require = False\<rparr>
   = title example_announcement @ content example_announcement
   \<and> Announcement_md5 \<lparr>title = ''Main'', content = ''tenanceTonight'', confirm_require = False\<rparr>
     = Announcement_md5 example_announcement"
proof -
  have c: "title \<lparr>title = ''Main'', content = ''tenanceTonight'', confirm_require = False\<rparr>
     @ content \<lparr>title = ''Main'', content = ''tenanceTonight'', confirm_require = False\<rparr>
   = title example_announcement @ content example_announcement"
    by (simp add: example_announcement_def)
  from digest_of_concatenation
         [of "\<lparr>title = ''Main'', content = ''tenanceTonight'', confirm_require = False\<rparr>" example_announcement,
          THEN conjunct2, THEN conjunct1] c
  have "Announcement_md5 \<lparr>title = ''Main'', content = ''tenanceTonight'', confirm_require = False\<rparr>
     = Announcement_md5 example_announcement"
    by (rule mp)
  with c show ?thesis by (intro conjI)
qed

section \<open>The persisted document\<close>

lemma validate_Announcement_dump: "validate_Announcement (dump_Announcement a) = Inr a"
  by (cases a)
     (simp add: validate_Announcement_def dump_Announcement_def required_def with_default_def
        bind_r_def validate_str_def validate_bool_def)

lemma validate_ChangelogEntry_dump: "validate_ChangelogEntry (dump_ChangelogEntry e) = Inr e"
  by (cases e)
     (simp add: validate_ChangelogEntry_def dump_ChangelogEntry_def required_def bind_r_def
        validate_str_def)

lemma validate_PlatformRelease_dump: "validate_PlatformRelease (dump_PlatformRelease r) = Inr r"
  by (cases r)
     (simp add: validate_PlatformRelease_def dump_PlatformRelease_def required_def with_default_def
        bind_r_def validate_str_def validate_bool_def)

lemma sequence_r_dump:
  "sequence_r (map validate_ChangelogEntry (map dump_ChangelogEntry xs)) = Inr xs"
  by (induction xs) (simp_all add: validate_ChangelogEntry_dump bind_r_def)

lemma validate_changelog_dump:
  "length xs \<le> 10 \<Longrightarrow> validate_changelog (JArr (map dump_ChangelogEntry xs)) = Inr xs"
  by (simp add: validate_changelog_def sequence_r_dump del: map_map)

lemma validate_changelog_long:
  "length xs > 10 \<Longrightarrow> validate_changelog (JArr (map dump_ChangelogEntry xs)) = Inl ValidationError"
  by (simp add: validate_changelog_def)

lemma map_of_exclude_none:
  "map_of (exclude_none k f x) k' = (if k' = k then map_option f x else None)"
  by (cases x) (simp_all add: exclude_none_def)

lemma validate_optional_JObj:
  "validate_optional v (JObj kvs) = bind_r (v (JObj kvs)) (\<lambda>x. Inr (Some x))"
  by (simp add: validate_optional_def)

lemma validate_optional_PlatformRelease:
  "(case map_option dump_PlatformRelease x of
      None \<Rightarrow> Inr None
    | Some j \<Rightarrow> validate_optional validate_PlatformRelease j) = Inr x"
  by (cases x)
     (simp_all add: validate_optional_JObj bind_r_def dump_PlatformRelease_def
        validate_PlatformRelease_dump [unfolded dump_PlatformRelease_def])

lemma with_default_platform:
  assumes "map_of kvs k = map_option dump_PlatformRelease x"
  shows "with_default kvs k None (validate_optional validate_PlatformRelease) = Inr x"
  using validate_optional_PlatformRelease [of x] by (simp add: with_default_def assms)

lemma map_of_dump_OTA:
  assumes "dump_OTA o' = JObj kvs"
  shows "map_of kvs ''content'' = Some (JStr (ota_content o'))"
    and "map_of kvs ''changelog'' = Some (JArr (map dump_ChangelogEntry (changelog o')))"
    and "map_of kvs ''android'' = map_option dump_PlatformRelease (android o')"
    and "map_of kvs ''ios'' = map_option dump_PlatformRelease (ios o')"
    and "map_of kvs ''windows'' = map_option dump_PlatformRelease (windows o')"
    and "map_of kvs ''macos'' = map_option dump_PlatformRelease (macos o')"
    and "map_of kvs ''linux'' = map_option dump_PlatformRelease (linux o')"
  using assms
  by (auto simp: dump_OTA_def map_add_def map_of_exclude_none split: option.splits)

lemma validate_OTA_dump:
  assumes "length (changelog o') \<le> 10"
  shows "validate_OTA (dump_OTA o') = Inr o'"
proof -
  obtain kvs where kvs: "dump_OTA o' = JObj kvs" by (simp add: dump_OTA_def)
  note l = map_of_dump_OTA [OF kvs]
  have c: "with_default kvs ''content'' [] validate_str = Inr (ota_content o')"
    by (simp add: with_default_def l(1) validate_str_def)
  have g: "with_default kvs ''changelog'' [] validate_changelog = Inr (changelog o')"
    by (simp add: with_default_def l(2) validate_changelog_dump [OF assms])
  show ?thesis
    unfolding kvs validate_OTA_def
    by (simp add: c g with_default_platform [OF l(3)] with_default_platform [OF l(4)]
          with_default_platform [OF l(5)] with_default_platform [OF l(6)]
          with_default_platform [OF l(7)] bind_r_def)
qed

lemma with_default_announcement:
  assumes "map_of kvs k = map_option dump_Announcement x"
  shows "with_default kvs k None (validate_optional validate_Announcement) = Inr x"
  by (cases x)
     (simp_all add: with_default_def assms validate_optional_JObj bind_r_def dump_Announcement_def
        validate_Announcement_dump [unfolded dump_Announcement_def])

lemma with_default_ota:
  assumes "map_of kvs k = map_option dump_OTA x"
    and "\<forall>o'. x = Some o' \<longrightarrow> length (changelog o') \<le> 10"
  shows "with_default kvs k None (validate_optional validate_OTA) = Inr x"
proof (cases x)
  case None
  then show ?thesis by (simp add: with_default_def assms(1))
next
  case (Some o')
  obtain kvs' where kvs': "dump_OTA o' = JObj kvs'" by (simp add: dump_OTA_def)
  from assms(2) Some have "validate_OTA (dump_OTA o') = Inr o'" by (simp add: validate_OTA_dump)
  then show ?thesis
    by (simp add: with_default_def assms(1) Some kvs' validate_optional_JObj bind_r_def)
qed

lemma map_of_model_dump:
  assumes "model_dump m = JObj kvs"
  shows "map_of kvs ''announcement'' = map_option dump_Announcement (announcement m)"
    and "map_of kvs ''ota'' = map_option dump_OTA (ota m)"
  using assms
  by (auto simp: model_dump_def map_add_def map_of_exclude_none split: option.splits)

lemma model_validate_dump:
  assumes "within_max_length m"
  shows "model_validate (model_dump m) = Inr m"
proof -
  obtain kvs where kvs: "model_dump m = JObj kvs" by (simp add: model_dump_def)
  note l = map_of_model_dump [OF kvs]
  from assms have b: "\<forall>o'. ota m = Some o' \<longrightarrow> length (changelog o') \<le> 10"
    by (auto simp: within_max_length_def)
  show ?thesis
    unfolding kvs model_validate_def
    by (simp add: with_default_announcement [OF l(1)] with_default_ota [OF l(2) b] bind_r_def)
qed

lemma no_null_dump_Announcement: "no_null (dump_Announcement a)"
  by (simp add: dump_Announcement_def)

lemma no_null_dump_PlatformRelease: "no_null (dump_PlatformRelease r)"
  by (simp add: dump_PlatformRelease_def)

lemma no_null_dump_ChangelogEntry: "no_null (dump_ChangelogEntry e)"
  by (simp add: dump_ChangelogEntry_def)

lemma no_null_exclude_none:
  assumes "\<And>v. f v \<noteq> JNull \<and> f v \<noteq> JObj [] \<and> no_null (f v)"
  shows "\<forall>kv \<in> set (exclude_none k f x). snd kv \<noteq> JNull \<and> snd kv \<noteq> JObj [] \<and> no_null (snd kv)"
  using assms by (cases x) (simp_all add: exclude_none_def)

lemma dump_PlatformRelease_value:
  "dump_PlatformRelease r \<noteq> JNull \<and> dump_PlatformRelease r \<noteq> JObj []
   \<and> no_null (dump_PlatformRelease r)"
  by (simp add: dump_PlatformRelease_def)

lemma dump_Announcement_value:
  "dump_Announcement a \<noteq> JNull \<and> dump_Announcement a \<noteq> JObj [] \<and> no_null (dump_Announcement a)"
  by (simp add: dump_Announcement_def)

lemma no_null_dump_OTA: "no_null (dump_OTA o')"
  using no_null_exclude_none [of dump_PlatformRelease, OF dump_PlatformRelease_value]
  by (simp add: dump_OTA_def ball_Un dump_ChangelogEntry_def)

lemma dump_OTA_value:
  "dump_OTA o' \<noteq> JNull \<and> dump_OTA o' \<noteq> JObj [] \<and> no_null (dump_OTA o')"
  using no_null_dump_OTA by (simp add: dump_OTA_def)

lemma no_null_model_dump: "no_null (model_dump m)"
  using no_null_exclude_none [of dump_Announcement, OF dump_Announcement_value]
    no_null_exclude_none [of dump_OTA, OF dump_OTA_value]
  by (simp add: model_dump_def ball_Un)

lemma key_absent: "(k \<notin> fst ` set kvs) = (map_of kvs k = None)"
  by (simp add: map_of_eq_None_iff)

lemma model_dump_keys:
  assumes "model_dump m = JObj kvs"
  shows "(''announcement'' \<notin> fst ` set kvs) = (announcement m = None)"
    and "(''ota'' \<notin> fst ` set kvs) = (ota m = None)"
  unfolding key_absent map_of_model_dump [OF assms] by simp_all

lemma dump_OTA_keys:
  assumes "dump_OTA o' = JObj kvs" and "p \<in> set PLATFORMS"
  shows "(p \<notin> fst ` set kvs) = (getattr_ota o' p = Some None)"
proof -
  note l = map_of_dump_OTA [OF assms(1)]
  from assms(2) consider "p = ''android''" | "p = ''ios''" | "p = ''windows''" | "p = ''macos''"
    | "p = ''linux''"
    by (auto simp: PLATFORMS_def)
  then show ?thesis
    by cases (simp_all add: key_absent l getattr_ota_def)
qed

section \<open>Reading and writing the manifest\<close>

lemma load_manifest_world:
  "snd (load_manifest w) = log_event (RemoteRead MANIFEST_KEY) w"
  by (simp add: load_manifest_def get_json_def op_read_def Let_def
      split: option.splits stored.splits)

lemma load_manifest_no_document:
  assumes "read_fails w MANIFEST_KEY \<or> objects w MANIFEST_KEY = None
           \<or> (\<exists>bs. objects w MANIFEST_KEY = Some (Blob bs))"
  shows "load_manifest w = (Inr empty_manifest, log_event (RemoteRead MANIFEST_KEY) w)"
  using assms
  by (auto simp: load_manifest_def get_json_def op_read_def Let_def)

lemma load_manifest_document:
  assumes "\<not> read_fails w MANIFEST_KEY" and "objects w MANIFEST_KEY = Some (Text j)"
  shows "load_manifest w =
           (if py_truthy j then model_validate j else Inr empty_manifest,
            log_event (RemoteRead MANIFEST_KEY) w)"
  using assms
  by (simp add: load_manifest_def get_json_def op_read_def Let_def)

lemma save_manifest_fails:
  assumes "write_fails w MANIFEST_KEY"
  shows "save_manifest w m = (Inl StorageError, log_event (RemoteWrite MANIFEST_KEY) w)"
  using assms
  by (simp add: save_manifest_def upload_content_def op_write_def Let_def)

lemma save_manifest_writes:
  assumes "\<not> write_fails w MANIFEST_KEY"
  shows "\<exists>u w'. save_manifest w m = (Inr u, w')
           \<and> objects w' = (objects w)(MANIFEST_KEY \<mapsto> Text (model_dump m))
           \<and> trace w' = trace w @ [RemoteWrite MANIFEST_KEY]
           \<and> read_fails w' = read_fails w \<and> write_fails w' = write_fails w
           \<and> files w' = files w"
  using assms
  by (simp add: save_manifest_def upload_content_def op_write_def Let_def log_event_def)

lemma save_manifest_Inl:
  assumes "save_manifest w m = (Inl e, w')"
  shows "e = StorageError \<and> w' = log_event (RemoteWrite MANIFEST_KEY) w"
  using assms
  by (simp add: save_manifest_def upload_content_def op_write_def Let_def split: if_splits)

lemma empty_model_dump:
  assumes "\<not> py_truthy (model_dump m)"
  shows "m = empty_manifest"
proof -
  from assms have "announcement m = None \<and> ota m = None"
    by (cases "announcement m"; cases "ota m") (simp_all add: model_dump_def exclude_none_def)
  then show ?thesis by (cases m) (simp add: empty_manifest_def)
qed

lemma load_after_save:
  assumes "within_max_length m" and "\<not> write_fails w MANIFEST_KEY" and "\<not> read_fails w MANIFEST_KEY"
  shows "\<exists>u w'. save_manifest w m = (Inr u, w') \<and> fst (load_manifest w') = Inr m"
proof -
  from save_manifest_writes [OF assms(2), of m] obtain u w' where
    s: "save_manifest w m = (Inr u, w')" and
    o: "objects w' = (objects w)(MANIFEST_KEY \<mapsto> Text (model_dump m))" and
    r: "read_fails w' = read_fails w"
    by blast
  from o have o': "objects w' MANIFEST_KEY = Some (Text (model_dump m))" by simp
  from r assms(3) have r': "\<not> read_fails w' MANIFEST_KEY" by simp
  have "fst (load_manifest w') = Inr m"
    unfolding load_manifest_document [OF r' o']
    using empty_model_dump [of m] model_validate_dump [OF assms(1)] by auto
  with s show ?thesis by blast
qed

lemma example_manifest_within: "within_max_length example_manifest"
  by (simp add: within_max_length_def example_manifest_def example_ota_def)

section \<open>The set-force command\<close>

lemma getattr_ota_platform:
  assumes "getattr_ota o' p = Some x"
  shows "p \<in> set PLATFORMS"
  using assms unfolding getattr_ota_def PLATFORMS_def by (simp split: if_splits)

lemma set_force_manifest_released:
  assumes "ota m = Some o'" and "getattr_ota o' p = Some (Some r)"
  shows "\<exists>o''. set_force_manifest m p force = Inr (m\<lparr>ota := Some o''\<rparr>)
           \<and> setattr_ota o' p (r\<lparr>force_ota := force\<rparr>) = Some o''"
proof -
  from getattr_ota_platform [OF assms(2)] have "p \<in> set PLATFORMS" .
  from setattr_ota_platform [OF this, of o' "r\<lparr>force_ota := force\<rparr>"]
  obtain o'' where s: "setattr_ota o' p (r\<lparr>force_ota := force\<rparr>) = Some o''" by blast
  have "set_force_manifest m p force = Inr (m\<lparr>ota := Some o''\<rparr>)"
    by (simp add: set_force_manifest_def assms s)
  with s show ?thesis by blast
qed

lemma set_force_failure:
  assumes "set_force w p force = (Inl e, w')"
  shows "objects w' = objects w
     \<and> (e \<noteq> StorageError \<longrightarrow>
          trace w' = trace w \<or> trace w' = trace w @ [RemoteRead MANIFEST_KEY])"
proof (cases "p \<in> set PLATFORMS")
  case False
  with assms have "w' = w" by (simp add: set_force_def)
  then show ?thesis by simp
next
  case True
  obtain x w1 where l: "load_manifest w = (x, w1)" by (cases "load_manifest w")
  with load_manifest_world [of w] have w1: "w1 = log_event (RemoteRead MANIFEST_KEY) w" by simp
  then have o1: "objects w1 = objects w" "trace w1 = trace w @ [RemoteRead MANIFEST_KEY]"
    by (simp_all add: log_event_def)
  show ?thesis
  proof (cases x)
    case (Inl e')
    with assms True l have "w' = w1" by (simp add: set_force_def)
    with o1 show ?thesis by simp
  next
    case (Inr m)
    show ?thesis
    proof (cases "set_force_manifest m p force")
      case (Inl e')
      with assms True l Inr have "w' = w1" by (simp add: set_force_def)
      with o1 show ?thesis by simp
    next
      case inr: (Inr m')
      with assms True l Inr have "save_manifest w1 m' = (Inl e, w')" by (simp add: set_force_def)
      from save_manifest_Inl [OF this]
      have "e = StorageError" "w' = log_event (RemoteWrite MANIFEST_KEY) w1" by simp_all
      with o1 show ?thesis by (simp add: log_event_def)
    qed
  qed
qed

text \<open>
  Claim C3. \<open>set_force\<close> returns \<open>InvalidPlatform\<close> for a platform outside the five,
  before any access to the store. For a valid platform and a loaded manifest it returns
  \<open>NoOtaConfigured\<close> when the manifest has no \<open>OTA\<close> record and
  \<open>PlatformNotReleased\<close> when the platform has no release; otherwise it saves the
  manifest in which the release of that platform has the new flag and its old version,
  URL and checksum, and everything else is as before. Whenever the command fails the
  objects of the store are unchanged, and unless the failure is that of the write
  itself the command has issued no write at all: it has done nothing, or one read of
  the manifest.
\<close>

theorem set_force_contract:
  "(p \<notin> set PLATFORMS \<longrightarrow> set_force w p force = (Inl InvalidPlatform, w))
   \<and> (p \<in> set PLATFORMS \<longrightarrow>
        (\<forall>m w1. load_manifest w = (Inr m, w1) \<longrightarrow>
           (ota m = None \<longrightarrow> set_force w p force = (Inl NoOtaConfigured, w1))
         \<and> (\<forall>o'. ota m = Some o' \<longrightarrow>
               (getattr_ota o' p = Some None \<longrightarrow>
                  set_force w p force = (Inl PlatformNotReleased, w1))
             \<and> (\<forall>r. getattr_ota o' p = Some (Some r) \<longrightarrow>
                   (\<exists>o'' r'. set_force w p force = save_manifest w1 (m\<lparr>ota := Some o''\<rparr>)
                       \<and> getattr_ota o'' p = Some (Some r')
                       \<and> force_ota r' = force \<and> rel_version r' = rel_version r
                       \<and> url r' = url r \<and> rel_md5 r' = rel_md5 r
                       \<and> (\<forall>q. q \<noteq> p \<longrightarrow> getattr_ota o'' q = getattr_ota o' q)
                       \<and> ota_content o'' = ota_content o' \<and> changelog o'' = changelog o')))))
   \<and> (\<forall>e w'. set_force w p force = (Inl e, w') \<longrightarrow>
         objects w' = objects w
         \<and> (e \<noteq> StorageError \<longrightarrow>
              trace w' = trace w \<or> trace w' = trace w @ [RemoteRead MANIFEST_KEY]))"
proof -
  have 1: "p \<notin> set PLATFORMS \<longrightarrow> set_force w p force = (Inl InvalidPlatform, w)"
    by (simp add: set_force_def)
  have 2: "p \<in> set PLATFORMS \<longrightarrow>
        (\<forall>m w1. load_manifest w = (Inr m, w1) \<longrightarrow>
           (ota m = None \<longrightarrow> set_force w p force = (Inl NoOtaConfigured, w1))
         \<and> (\<forall>o'. ota m = Some o' \<longrightarrow>
               (getattr_ota o' p = Some None \<longrightarrow>
                  set_force w p force = (Inl PlatformNotReleased, w1))
             \<and> (\<forall>r. getattr_ota o' p = Some (Some r) \<longrightarrow>
                   (\<exists>o'' r'. set_force w p force = save_manifest w1 (m\<lparr>ota := Some o''\<rparr>)
                       \<and> getattr_ota o'' p = Some (Some r')
                       \<and> force_ota r' = force \<and> rel_version r' = rel_version r
                       \<and> url r' = url r \<and> rel_md5 r' = rel_md5 r
                       \<and> (\<forall>q. q \<noteq> p \<longrightarrow> getattr_ota o'' q = getattr_ota o' q)
                       \<and> ota_content o'' = ota_content o' \<and> changelog o'' = changelog o'))))"
  proof (intro impI allI conjI)
    fix m w1
    assume p: "p \<in> set PLATFORMS" and l: "load_manifest w = (Inr m, w1)"
    assume "ota m = None"
    then show "set_force w p force = (Inl NoOtaConfigured, w1)"
      using p l by (simp add: set_force_def set_force_manifest_def)
  next
    fix m w1 o'
    assume p: "p \<in> set PLATFORMS" and l: "load_manifest w = (Inr m, w1)"
    assume "ota m = Some o'" "getattr_ota o' p = Some None"
    then show "set_force w p force = (Inl PlatformNotReleased, w1)"
      using p l by (simp add: set_force_def set_force_manifest_def)
  next
    fix m w1 o' r
    assume p: "p \<in> set PLATFORMS" and l: "load_manifest w = (Inr m, w1)"
    assume o: "ota m = Some o'" and g: "getattr_ota o' p = Some (Some r)"
    from set_force_manifest_released [OF o g, of force] obtain o'' where
      f: "set_force_manifest m p force = Inr (m\<lparr>ota := Some o''\<rparr>)" and
      s: "setattr_ota o' p (r\<lparr>force_ota := force\<rparr>) = Some o''"
      by blast
    from p l f have c: "set_force w p force = save_manifest w1 (m\<lparr>ota := Some o''\<rparr>)"
      by (simp add: set_force_def)
    note fr = setattr_ota_frame [OF s]
    show "\<exists>o'' r'. set_force w p force = save_manifest w1 (m\<lparr>ota := Some o''\<rparr>)
                       \<and> getattr_ota o'' p = Some (Some r')
                       \<and> force_ota r' = force \<and> rel_version r' = rel_version r
                       \<and> url r' = url r \<and> rel_md5 r' = rel_md5 r
                       \<and> (\<forall>q. q \<noteq> p \<longrightarrow> getattr_ota o'' q = getattr_ota o' q)
                       \<and> ota_content o'' = ota_content o' \<and> changelog o'' = changelog o'"
      apply (rule exI [of _ o''])
      apply (rule exI [of _ "r\<lparr>force_ota := force\<rparr>"])
      using c fr apply simp
      done
  qed
  have 3: "\<forall>e w'. set_force w p force = (Inl e, w') \<longrightarrow>
         objects w' = objects w
         \<and> (e \<noteq> StorageError \<longrightarrow>
              trace w' = trace w \<or> trace w' = trace w @ [RemoteRead MANIFEST_KEY])"
    using set_force_failure by blast
  from 1 2 3 show ?thesis by (intro conjI)
qed

lemma load_example_world:
  "load_manifest example_world
     = (Inr example_manifest, log_event (RemoteRead MANIFEST_KEY) example_world)"
proof -
  have r: "\<not> read_fails example_world MANIFEST_KEY"
    and o: "objects example_world MANIFEST_KEY = Some (Text (model_dump example_manifest))"
    by (simp_all add: example_world_def)
  have t: "py_truthy (model_dump example_manifest)"
    by (simp add: model_dump_def exclude_none_def example_manifest_def)
  show ?thesis
    unfolding load_manifest_document [OF r o]
    by (simp add: t model_validate_dump [OF example_manifest_within])
qed

lemma load_empty_world:
  "load_manifest empty_world = (Inr empty_manifest, log_event (RemoteRead MANIFEST_KEY) empty_world)"
  by (rule load_manifest_no_document) (simp add: empty_world_def)

theorem set_force_contract_witness:
  "''beos'' \<notin> set PLATFORMS
   \<and> set_force example_world ''beos'' True = (Inl InvalidPlatform, example_world)
   \<and> ''ios'' \<in> set PLATFORMS \<and> ''windows'' \<in> set PLATFORMS
   \<and> fst (set_force empty_world ''ios'' True) = Inl NoOtaConfigured
   \<and> fst (set_force example_world ''ios'' True) = Inl PlatformNotReleased
   \<and> objects (snd (set_force example_world ''ios'' True)) = objects example_world
   \<and> (\<exists>u w' o'' r'. set_force example_world ''windows'' False = (Inr u, w')
         \<and> objects w' MANIFEST_KEY = Some (Text (model_dump (example_manifest\<lparr>ota := Some o''\<rparr>)))
         \<and> getattr_ota o'' ''windows'' = Some (Some r')
         \<and> force_ota r' = False \<and> rel_version r' = ''1.0.1'' \<and> rel_md5 r' = ''def456''
         \<and> getattr_ota o'' ''ios'' = Some None)"
proof -
  have p: "''beos'' \<notin> set PLATFORMS" "''ios'' \<in> set PLATFORMS" "''windows'' \<in> set PLATFORMS"
    by (simp_all add: PLATFORMS_def)
  have o: "ota example_manifest = Some example_ota" by (simp add: example_manifest_def)
  have oe: "ota empty_manifest = None" by (simp add: empty_manifest_def)
  have gi: "getattr_ota example_ota ''ios'' = Some None"
    and gw: "getattr_ota example_ota ''windows'' = Some (Some example_release)"
    by (simp_all add: getattr_ota_def example_ota_def)
  have rel: "rel_version example_release = ''1.0.1''" "rel_md5 example_release = ''def456''"
    by (simp_all add: example_release_def)
  have wf: "\<not> write_fails (log_event (RemoteRead MANIFEST_KEY) example_world) MANIFEST_KEY"
    by (simp add: log_event_def example_world_def)
  from set_force_contract [of "''beos''" example_world True, THEN conjunct1] p(1)
  have 1: "set_force example_world ''beos'' True = (Inl InvalidPlatform, example_world)"
    by (rule mp)
  from set_force_contract [of "''ios''" empty_world True, THEN conjunct2, THEN conjunct1,
         rule_format, OF p(2) load_empty_world, THEN conjunct1] oe
  have "set_force empty_world ''ios'' True
          = (Inl NoOtaConfigured, log_event (RemoteRead MANIFEST_KEY) empty_world)"
    by (rule mp)
  then have 2: "fst (set_force empty_world ''ios'' True) = Inl NoOtaConfigured" by simp
  from set_force_contract [of "''ios''" example_world True, THEN conjunct2, THEN conjunct1,
         rule_format, OF p(2) load_example_world, THEN conjunct2, rule_format, OF o,
         THEN conjunct1] gi
  have n: "set_force example_world ''ios'' True
          = (Inl PlatformNotReleased, log_event (RemoteRead MANIFEST_KEY) example_world)"
    by (rule mp)
  then have 3: "fst (set_force example_world ''ios'' True) = Inl PlatformNotReleased" by simp
  from set_force_contract [of "''ios''" example_world True, THEN conjunct2, THEN conjunct2,
         rule_format, OF n, THEN conjunct1] n
  have 4: "objects (snd (set_force example_world ''ios'' True)) = objects example_world" by simp
  from set_force_contract [of "''windows''" example_world False, THEN conjunct2, THEN conjunct1,
         rule_format, OF p(3) load_example_world, THEN conjunct2, rule_format, OF o,
         THEN conjunct2, rule_format, OF gw]
  obtain o'' r' where
    s: "set_force example_world ''windows'' False
          = save_manifest (log_event (RemoteRead MANIFEST_KEY) example_world)
              (example_manifest\<lparr>ota := Some o''\<rparr>)" and
    g: "getattr_ota o'' ''windows'' = Some (Some r')" and
    f: "force_ota r' = False" "rel_version r' = rel_version example_release"
       "rel_md5 r' = rel_md5 example_release" and
    q: "\<forall>q. q \<noteq> ''windows'' \<longrightarrow> getattr_ota o'' q = getattr_ota example_ota q"
    by blast
  from q gi have i: "getattr_ota o'' ''ios'' = Some None" by simp
  from save_manifest_writes [OF wf, of "example_manifest\<lparr>ota := Some o''\<rparr>"]
  obtain u w' where
    sv: "save_manifest (log_event (RemoteRead MANIFEST_KEY) example_world)
              (example_manifest\<lparr>ota := Some o''\<rparr>) = (Inr u, w')" and
    ob: "objects w' = (objects (log_event (RemoteRead MANIFEST_KEY) example_world))
              (MANIFEST_KEY \<mapsto> Text (model_dump (example_manifest\<lparr>ota := Some o''\<rparr>)))"
    by blast
  from ob have ob': "objects w' MANIFEST_KEY
      = Some (Text (model_dump (example_manifest\<lparr>ota := Some o''\<rparr>)))" by simp
  from s sv have s': "set_force example_world ''windows'' False = (Inr u, w')" by simp
  have 5: "\<exists>u w' o'' r'. set_force example_world ''windows'' False = (Inr u, w')
         \<and> objects w' MANIFEST_KEY = Some (Text (model_dump (example_manifest\<lparr>ota := Some o''\<rparr>)))
         \<and> getattr_ota o'' ''windows'' = Some (Some r')
         \<and> force_ota r' = False \<and> rel_version r' = ''1.0.1'' \<and> rel_md5 r' = ''def456''
         \<and> getattr_ota o'' ''ios'' = Some None"
    apply (rule exI [of _ u])
    apply (rule exI [of _ w'])
    apply (rule exI [of _ o''])
    apply (rule exI [of _ r'])
    using s' ob' g f rel i apply simp
    done
  from p(1) 1 p(2) p(3) 2 3 4 5 show ?thesis by (intro conjI)
qed

section \<open>The release command\<close>





lemma release_succeeds:
  assumes "p \<in> set PLATFORMS"
    and "files w (path_str file) = Some (RegularFile bs)"
    and "fst (load_manifest (log_event (LocalStat (path_str file)) w)) = Inr m"
    and "\<not> write_fails w (release_key p v file)"
    and "\<not> write_fails w MANIFEST_KEY"
  shows "\<exists>u w'. release w v p file f c cl = (Inr u, w')"
proof -
  let ?f = "path_str file" and ?k = "release_key p v file"
  define w0 where "w0 = log_event (LocalStat ?f) w"
  define w1 where "w1 = log_event (RemoteRead MANIFEST_KEY) w0"
  define w2 where "w2 = log_event (LocalRead ?f) w1"
  have fr: "files w2 = files w" "write_fails w2 = write_fails w" "files w1 = files w"
    by (simp_all add: w0_def w1_def w2_def log_event_def)
  from assms(3) load_manifest_world [of w0] have l: "load_manifest w0 = (Inr m, w1)"
    by (cases "load_manifest w0") (simp add: w0_def w1_def)
  from assms(2) fr(3)
  have h: "get_file_md5 w1 ?f = (Inr (hexdigest (hashlib_md5 bs)), w2)"
    by (simp add: get_file_md5_def Let_def w2_def)
  from assms(2,4) fr(1,2) obtain url w3 where
    u: "upload_file w2 ?f ?k = (Inr url, w3)" and wf3: "write_fails w3 = write_fails w"
    by (simp add: upload_file_def op_write_def Let_def log_event_def)
  from release_manifest_total [OF assms(1), of m v f c cl url "hexdigest (hashlib_md5 bs)"]
  obtain m' where m': "release_manifest m v p f c cl url (hexdigest (hashlib_md5 bs)) = Inr m'"
    by blast
  from assms(5) wf3 have "\<not> write_fails w3 MANIFEST_KEY" by simp
  from save_manifest_writes [OF this, of m'] obtain u' w' where
    s: "save_manifest w3 m' = (Inr u', w')" by blast
  from assms(1,2) l h u m' s have "release w v p file f c cl = (Inr u', w')"
    by (simp add: release_def Let_def w0_def)
  then show ?thesis by blast
qed




section \<open>The bound on the changelog is kept\<close>

lemma sequence_r_length:
  "sequence_r xs = Inr ys \<Longrightarrow> length ys = length xs"
proof (induction xs arbitrary: ys)
  case Nil
  then show ?case by simp
next
  case (Cons x xs)
  then show ?case
    by (cases x; cases "sequence_r xs") (auto simp: bind_r_def)
qed

lemma validate_changelog_length:
  assumes "validate_changelog j = Inr l"
  shows "length l \<le> 10"
proof (cases j)
  case (JArr xs)
  with assms have "\<not> length xs > 10" "sequence_r (map validate_ChangelogEntry xs) = Inr l"
    by (simp_all add: validate_changelog_def split: if_splits)
  with sequence_r_length [of "map validate_ChangelogEntry xs" l] show ?thesis by simp
qed (use assms in \<open>simp_all add: validate_changelog_def\<close>)

lemma bind_r_Inr:
  "bind_r x g = Inr y \<Longrightarrow> \<exists>v. x = Inr v \<and> g v = Inr y"
  by (cases x) (simp_all add: bind_r_def)

lemma validate_OTA_within:
  assumes "validate_OTA j = Inr o'"
  shows "length (changelog o') \<le> 10"
proof (cases j)
  case (JObj kvs)
  with assms obtain l where l: "with_default kvs ''changelog'' [] validate_changelog = Inr l"
    and "changelog o' = l"
    by (auto simp: validate_OTA_def dest!: bind_r_Inr)
  note this(2)
  moreover from l have "length l \<le> 10"
    by (cases "map_of kvs ''changelog''")
       (auto simp: with_default_def dest: validate_changelog_length)
  ultimately show ?thesis by simp
qed (use assms in \<open>simp_all add: validate_OTA_def\<close>)

lemma validate_optional_Some:
  "validate_optional v j = Inr (Some x) \<Longrightarrow> v j = Inr x"
  by (cases j; cases "v j") (simp_all add: validate_optional_def bind_r_def)

lemma model_validate_within:
  assumes "model_validate j = Inr m"
  shows "within_max_length m"
proof (cases j)
  case (JObj kvs)
  with assms obtain a t where
    t: "with_default kvs ''ota'' None (validate_optional validate_OTA) = Inr t" and
    m: "m = \<lparr>announcement = a, ota = t\<rparr>"
    by (auto simp: model_validate_def dest!: bind_r_Inr)
  show ?thesis
  proof (cases t)
    case None
    with m show ?thesis by (simp add: within_max_length_def)
  next
    case (Some o')
    with t obtain j' where "validate_optional validate_OTA j' = Inr (Some o')"
      by (cases "map_of kvs ''ota''") (auto simp: with_default_def)
    then have "validate_OTA j' = Inr o'" by (rule validate_optional_Some)
    then have "length (changelog o') \<le> 10" by (rule validate_OTA_within)
    with m Some show ?thesis by (simp add: within_max_length_def)
  qed
qed (use assms in \<open>simp_all add: model_validate_def\<close>)

lemma load_manifest_within:
  assumes "load_manifest w = (Inr m, w1)"
  shows "within_max_length m"
proof -
  obtain data w' where g: "get_json w MANIFEST_KEY = (data, w')"
    by (cases "get_json w MANIFEST_KEY")
  show ?thesis
  proof (cases "py_truthy data")
    case True
    with assms g have "model_validate data = Inr m" by (simp add: load_manifest_def)
    then show ?thesis by (rule model_validate_within)
  next
    case False
    with assms g have "m = empty_manifest" by (simp add: load_manifest_def)
    then show ?thesis by (simp add: within_max_length_def empty_manifest_def)
  qed
qed

lemma release_manifest_within:
  assumes "release_manifest m v p f c cl u md = Inr m'"
  shows "within_max_length m'"
proof -
  from release_manifest_changelog [OF assms] obtain o'' where
    "ota m' = Some o''" "changelog o'' = build_changelogs m v cl" by blast
  then show ?thesis by (simp add: within_max_length_def build_changelogs_eq)
qed

lemma set_force_manifest_within:
  assumes "set_force_manifest m p force = Inr m'" and "within_max_length m"
  shows "within_max_length m'"
proof -
  from assms(1) obtain o' r o'' where o: "ota m = Some o'"
    and s: "setattr_ota o' p r = Some o''" and m': "m' = m\<lparr>ota := Some o''\<rparr>"
    by (auto simp: set_force_manifest_def split: option.splits)
  from setattr_ota_frame [OF s] have "changelog o'' = changelog o'" by simp
  with assms(2) o m' show ?thesis by (simp add: within_max_length_def)
qed

lemma announce_manifest_within:
  "within_max_length (announce_manifest m t c r) = within_max_length m"
  "within_max_length (clear_announce_manifest m) = within_max_length m"
  by (simp_all add: within_max_length_def announce_manifest_def clear_announce_manifest_def)

text \<open>
  Claim C7. When the read of the manifest fails, when the key holds nothing, and when it
  holds bytes that are not a JSON text, \<open>load_manifest\<close> returns the empty manifest
  and no error, exactly as for an absent document, and the commands go on from the
  empty manifest: \<open>announce\<close> and \<open>clear_announce\<close> save their change of it, and
  \<open>set_force\<close> on a valid platform finds no \<open>OTA\<close> record. The same holds after
  any earlier event, such as the test of the installer path in \<open>release\<close>.
\<close>

theorem load_manifest_read_failure:
  assumes "read_fails w MANIFEST_KEY \<or> objects w MANIFEST_KEY = None
           \<or> (\<exists>bs. objects w MANIFEST_KEY = Some (Blob bs))"
  shows "load_manifest w = (Inr empty_manifest, log_event (RemoteRead MANIFEST_KEY) w)
     \<and> load_manifest (log_event e w)
         = (Inr empty_manifest, log_event (RemoteRead MANIFEST_KEY) (log_event e w))
     \<and> announce w t c r
         = save_manifest (log_event (RemoteRead MANIFEST_KEY) w) (announce_manifest empty_manifest t c r)
     \<and> clear_announce w
         = save_manifest (log_event (RemoteRead MANIFEST_KEY) w) (clear_announce_manifest empty_manifest)
     \<and> (p \<in> set PLATFORMS \<longrightarrow>
          set_force w p f = (Inl NoOtaConfigured, log_event (RemoteRead MANIFEST_KEY) w))"
proof -
  note l = load_manifest_no_document [OF assms]
  from assms have "read_fails (log_event e w) MANIFEST_KEY \<or> objects (log_event e w) MANIFEST_KEY = None
           \<or> (\<exists>bs. objects (log_event e w) MANIFEST_KEY = Some (Blob bs))"
    by (simp add: log_event_def)
  note l' = load_manifest_no_document [OF this]
  have a: "announce w t c r
         = save_manifest (log_event (RemoteRead MANIFEST_KEY) w) (announce_manifest empty_manifest t c r)"
    by (simp add: announce_def l)
  have b: "clear_announce w
         = save_manifest (log_event (RemoteRead MANIFEST_KEY) w) (clear_announce_manifest empty_manifest)"
    by (simp add: clear_announce_def l)
  have s: "p \<in> set PLATFORMS \<longrightarrow>
          set_force w p f = (Inl NoOtaConfigured, log_event (RemoteRead MANIFEST_KEY) w)"
    by (simp add: set_force_def l set_force_manifest_def empty_manifest_def)
  from l l' a b s show ?thesis by (intro conjI)
qed

theorem load_manifest_read_failure_witness:
  "objects corrupt_world MANIFEST_KEY = Some (Blob [0x7b, 0x22])
   \<and> fst (load_manifest corrupt_world) = Inr empty_manifest
   \<and> trace (snd (load_manifest corrupt_world)) = [RemoteRead MANIFEST_KEY]
   \<and> ''android'' \<in> set PLATFORMS
   \<and> fst (set_force corrupt_world ''android'' True) = Inl NoOtaConfigured
   \<and> objects empty_world MANIFEST_KEY = None
   \<and> fst (load_manifest empty_world) = Inr empty_manifest"
proof -
  have c: "objects corrupt_world MANIFEST_KEY = Some (Blob [0x7b, 0x22])"
    by (simp add: corrupt_world_def)
  have e: "objects empty_world MANIFEST_KEY = None"
    by (simp add: empty_world_def)
  have p: "''android'' \<in> set PLATFORMS" by (simp add: PLATFORMS_def)
  have t: "trace corrupt_world = []"
    by (simp add: corrupt_world_def example_world_def)
  from c have hc: "read_fails corrupt_world MANIFEST_KEY \<or> objects corrupt_world MANIFEST_KEY = None
           \<or> (\<exists>bs. objects corrupt_world MANIFEST_KEY = Some (Blob bs))" by simp
  from e have he: "read_fails empty_world MANIFEST_KEY \<or> objects empty_world MANIFEST_KEY = None
           \<or> (\<exists>bs. objects empty_world MANIFEST_KEY = Some (Blob bs))" by simp
  note rc = load_manifest_read_failure [OF hc, of "LocalStat []" "[]" "[]" False "''android''" True]
  note re = load_manifest_read_failure [OF he, of "LocalStat []" "[]" "[]" False "''android''" True]
  from rc have 1: "fst (load_manifest corrupt_world) = Inr empty_manifest" by simp
  from rc t have 2: "trace (snd (load_manifest corrupt_world)) = [RemoteRead MANIFEST_KEY]"
    by (simp add: log_event_def)
  from rc p have 3: "fst (set_force corrupt_world ''android'' True) = Inl NoOtaConfigured" by simp
  from re have 4: "fst (load_manifest empty_world) = Inr empty_manifest" by simp
  from c 1 2 p 3 e 4 show ?thesis by (intro conjI)
qed

text \<open>
  Claim C8. A manifest within the declared bound of 10 changelog entries is validated
  back from its document as itself, also through a write and a read of the store. The
  document has no \<open>null\<close> and no empty object as a value; it has the key
  \<open>announcement\<close> exactly when the manifest has an announcement and the key \<open>ota\<close>
  exactly when it has an \<open>OTA\<close> record, and the object of the \<open>OTA\<close> record has the
  key of a platform exactly when that platform has a release. The bound holds of every
  manifest that validation returns and of every manifest that a release returns, so
  these are validated back from their documents as themselves.
\<close>

theorem manifest_roundtrip:
  assumes "within_max_length m"
  shows "model_validate (model_dump m) = Inr m
     \<and> (\<not> write_fails w MANIFEST_KEY \<and> \<not> read_fails w MANIFEST_KEY \<longrightarrow>
          (\<exists>u w'. save_manifest w m = (Inr u, w') \<and> fst (load_manifest w') = Inr m))
     \<and> no_null (model_dump m)
     \<and> (\<exists>kvs. model_dump m = JObj kvs
           \<and> (''announcement'' \<notin> fst ` set kvs) = (announcement m = None)
           \<and> (''ota'' \<notin> fst ` set kvs) = (ota m = None)
           \<and> map_of kvs ''announcement'' = map_option dump_Announcement (announcement m)
           \<and> map_of kvs ''ota'' = map_option dump_OTA (ota m))
     \<and> (\<forall>o'. ota m = Some o' \<longrightarrow>
           (\<exists>kvs'. dump_OTA o' = JObj kvs'
              \<and> (\<forall>p \<in> set PLATFORMS. (p \<notin> fst ` set kvs') = (getattr_ota o' p = Some None))))
     \<and> (\<forall>j m'. model_validate j = Inr m' \<longrightarrow>
           within_max_length m' \<and> model_validate (model_dump m') = Inr m')
     \<and> (\<forall>m0 v p f c cl u md m'. release_manifest m0 v p f c cl u md = Inr m' \<longrightarrow>
           within_max_length m' \<and> model_validate (model_dump m') = Inr m')"
proof -
  have 6: "\<forall>j m'. model_validate j = Inr m' \<longrightarrow>
           within_max_length m' \<and> model_validate (model_dump m') = Inr m'"
    using model_validate_within model_validate_dump by blast
  have 7: "\<forall>m0 v p f c cl u md m'. release_manifest m0 v p f c cl u md = Inr m' \<longrightarrow>
           within_max_length m' \<and> model_validate (model_dump m') = Inr m'"
    using release_manifest_within model_validate_dump by blast
  have 1: "model_validate (model_dump m) = Inr m"
    by (rule model_validate_dump [OF assms])
  have 2: "\<not> write_fails w MANIFEST_KEY \<and> \<not> read_fails w MANIFEST_KEY \<longrightarrow>
          (\<exists>u w'. save_manifest w m = (Inr u, w') \<and> fst (load_manifest w') = Inr m)"
    using load_after_save [OF assms] by blast
  have 3: "no_null (model_dump m)" by (rule no_null_model_dump)
  obtain kvs where kvs: "model_dump m = JObj kvs" by (simp add: model_dump_def)
  have 4: "\<exists>kvs. model_dump m = JObj kvs
           \<and> (''announcement'' \<notin> fst ` set kvs) = (announcement m = None)
           \<and> (''ota'' \<notin> fst ` set kvs) = (ota m = None)
           \<and> map_of kvs ''announcement'' = map_option dump_Announcement (announcement m)
           \<and> map_of kvs ''ota'' = map_option dump_OTA (ota m)"
    apply (rule exI [of _ kvs])
    apply (intro conjI)
    apply (rule kvs)
    apply (rule model_dump_keys(1) [OF kvs])
    apply (rule model_dump_keys(2) [OF kvs])
    apply (rule map_of_model_dump(1) [OF kvs])
    apply (rule map_of_model_dump(2) [OF kvs])
    done
  have 5: "\<forall>o'. ota m = Some o' \<longrightarrow>
           (\<exists>kvs'. dump_OTA o' = JObj kvs'
              \<and> (\<forall>p \<in> set PLATFORMS. (p \<notin> fst ` set kvs') = (getattr_ota o' p = Some None)))"
  proof (intro allI impI)
    fix o'
    obtain kvs' where k: "dump_OTA o' = JObj kvs'" by (simp add: dump_OTA_def)
    have "\<forall>p \<in> set PLATFORMS. (p \<notin> fst ` set kvs') = (getattr_ota o' p = Some None)"
      by (intro ballI) (rule dump_OTA_keys [OF k])
    with k show "\<exists>kvs'. dump_OTA o' = JObj kvs'
              \<and> (\<forall>p \<in> set PLATFORMS. (p \<notin> fst ` set kvs') = (getattr_ota o' p = Some None))"
      by (intro exI [of _ kvs'] conjI)
  qed
  from 1 2 3 4 5 6 7 show ?thesis by (intro conjI)
qed

theorem manifest_roundtrip_witness:
  "within_max_length example_manifest
   \<and> model_validate (model_dump example_manifest) = Inr example_manifest
   \<and> (\<exists>u w'. save_manifest empty_world example_manifest = (Inr u, w')
         \<and> fst (load_manifest w') = Inr example_manifest)
   \<and> no_null (model_dump example_manifest)"
proof -
  have f: "\<not> write_fails empty_world MANIFEST_KEY \<and> \<not> read_fails empty_world MANIFEST_KEY"
    by (simp add: empty_world_def example_world_def)
  note r = manifest_roundtrip [OF example_manifest_within, of empty_world]
  from r have 1: "model_validate (model_dump example_manifest) = Inr example_manifest"
    by (rule conjunct1)
  from r [THEN conjunct2, THEN conjunct1] f
  have 2: "\<exists>u w'. save_manifest empty_world example_manifest = (Inr u, w')
         \<and> fst (load_manifest w') = Inr example_manifest"
    by (rule mp)
  from r [THEN conjunct2, THEN conjunct2]
  have 3: "no_null (model_dump example_manifest)"
    by (rule conjunct1)
  from example_manifest_within 1 2 3 show ?thesis by (intro conjI)
qed

section \<open>The commands on the two halves of the manifest\<close>

lemma load_manifest_dumped:
  assumes "within_max_length m" and "\<not> read_fails w MANIFEST_KEY"
    and "objects w MANIFEST_KEY = Some (Text (model_dump m))"
  shows "load_manifest w = (Inr m, log_event (RemoteRead MANIFEST_KEY) w)"
  unfolding load_manifest_document [OF assms(2,3)]
  using empty_model_dump [of m] model_validate_dump [OF assms(1)] by auto

lemma save_manifest_Inr:
  assumes "save_manifest w m = (Inr u, w')"
  shows "objects w' = (objects w)(MANIFEST_KEY \<mapsto> Text (model_dump m))"
    and "read_fails w' = read_fails w" and "write_fails w' = write_fails w"
    and "\<not> write_fails w MANIFEST_KEY"
proof -
  show n: "\<not> write_fails w MANIFEST_KEY"
    using assms save_manifest_fails [of w m] by auto
  from save_manifest_writes [OF n, of m] assms
  show "objects w' = (objects w)(MANIFEST_KEY \<mapsto> Text (model_dump m))"
    and "read_fails w' = read_fails w" and "write_fails w' = write_fails w"
    by auto
qed

lemma clear_announce_twice:
  assumes "\<not> read_fails w MANIFEST_KEY" and "clear_announce w = (Inr u, w')"
  shows "\<exists>u' w''. clear_announce w' = (Inr u', w'') \<and> objects w'' = objects w'"
proof -
  let ?K = "MANIFEST_KEY"
  obtain x w1 where l: "load_manifest w = (x, w1)" by (cases "load_manifest w")
  with load_manifest_world [of w] have w1: "w1 = log_event (RemoteRead ?K) w" by simp
  from assms(2) l obtain m0 where x: "x = Inr m0"
    by (cases x) (simp_all add: clear_announce_def)
  let ?m = "clear_announce_manifest m0"
  from assms(2) l x have s: "save_manifest w1 ?m = (Inr u, w')"
    by (simp add: clear_announce_def)
  note sv = save_manifest_Inr [OF s]
  from l x have "within_max_length m0" by (simp add: load_manifest_within)
  then have b: "within_max_length ?m" by (simp add: announce_manifest_within)
  from sv(2) assms(1) w1 have r': "\<not> read_fails w' ?K" by (simp add: log_event_def)
  from sv(1) have o': "objects w' ?K = Some (Text (model_dump ?m))" by simp
  define w2 where "w2 = log_event (RemoteRead ?K) w'"
  from load_manifest_dumped [OF b r' o'] have l': "load_manifest w' = (Inr ?m, w2)"
    by (simp add: w2_def)
  from sv(3,4) w1 have "\<not> write_fails w2 ?K" by (simp add: w2_def log_event_def)
  from save_manifest_writes [OF this, of ?m] obtain u' w'' where
    s': "save_manifest w2 ?m = (Inr u', w'')" and
    o'': "objects w'' = (objects w2)(?K \<mapsto> Text (model_dump ?m))"
    by blast
  have i: "clear_announce_manifest ?m = ?m" by (simp add: clear_announce_manifest_def)
  from l' s' i have c: "clear_announce w' = (Inr u', w'')" by (simp add: clear_announce_def)
  from o'' o' have "objects w'' = objects w'"
    by (auto simp: w2_def log_event_def)
  with c show ?thesis by blast
qed

lemma release_saves:
  assumes "release w v p file f c cl = (Inr x, w')"
  shows "\<exists>m0 w1 durl md m' w3.
           load_manifest (log_event (LocalStat (path_str file)) w) = (Inr m0, w1)
           \<and> release_manifest m0 v p f c cl durl md = Inr m'
           \<and> save_manifest w3 m' = (Inr x, w')"
  using assms
  by (auto simp: release_def Let_def split: if_splits prod.splits sum.splits)

lemma load_announced_world:
  "load_manifest announced_world
     = (Inr announced_manifest, log_event (RemoteRead MANIFEST_KEY) announced_world)"
proof (rule load_manifest_dumped)
  show "within_max_length announced_manifest"
    by (simp add: within_max_length_def announced_manifest_def example_ota_def)
  show "\<not> read_fails announced_world MANIFEST_KEY"
    by (simp add: announced_world_def example_world_def)
  show "objects announced_world MANIFEST_KEY = Some (Text (model_dump announced_manifest))"
    by (simp add: announced_world_def)
qed

text \<open>
  Claim C9. Clearing the announcement twice gives the manifest that clearing it once
  gives, and clearing a manifest that has no announcement returns it as it is; the
  operation has no error to return. The command \<open>clear_announce\<close> saves exactly the
  cleared form of the manifest it has loaded, and a second run after a successful one
  succeeds and leaves every object of the store as the first run left it.
\<close>

theorem clear_announce_idempotent:
  "clear_announce_manifest (clear_announce_manifest m) = clear_announce_manifest m
   \<and> (announcement m = None \<longrightarrow> clear_announce_manifest m = m)
   \<and> (\<forall>m0 w1. load_manifest w = (Inr m0, w1) \<longrightarrow>
         clear_announce w = save_manifest w1 (clear_announce_manifest m0))
   \<and> (\<forall>u w'. \<not> read_fails w MANIFEST_KEY \<and> clear_announce w = (Inr u, w') \<longrightarrow>
         (\<exists>u' w''. clear_announce w' = (Inr u', w'') \<and> objects w'' = objects w'))"
proof -
  have 1: "clear_announce_manifest (clear_announce_manifest m) = clear_announce_manifest m"
    by (simp add: clear_announce_manifest_def)
  have 2: "announcement m = None \<longrightarrow> clear_announce_manifest m = m"
    by (simp add: clear_announce_manifest_def)
  have 3: "\<forall>m0 w1. load_manifest w = (Inr m0, w1) \<longrightarrow>
         clear_announce w = save_manifest w1 (clear_announce_manifest m0)"
    by (simp add: clear_announce_def)
  have 4: "\<forall>u w'. \<not> read_fails w MANIFEST_KEY \<and> clear_announce w = (Inr u, w') \<longrightarrow>
         (\<exists>u' w''. clear_announce w' = (Inr u', w'') \<and> objects w'' = objects w')"
  proof (intro allI impI)
    fix u w'
    assume a: "\<not> read_fails w MANIFEST_KEY \<and> clear_announce w = (Inr u, w')"
    then have a1: "\<not> read_fails w MANIFEST_KEY" and a2: "clear_announce w = (Inr u, w')"
      by simp_all
    show "\<exists>u' w''. clear_announce w' = (Inr u', w'') \<and> objects w'' = objects w'"
      by (rule clear_announce_twice [OF a1 a2])
  qed
  from 1 2 3 4 show ?thesis by (intro conjI)
qed

theorem clear_announce_idempotent_witness:
  "announcement example_manifest = None
   \<and> clear_announce_manifest example_manifest = example_manifest
   \<and> clear_announce_manifest (clear_announce_manifest announced_manifest) = example_manifest
   \<and> (\<exists>u w' u' w''. clear_announce announced_world = (Inr u, w')
         \<and> objects w' MANIFEST_KEY = Some (Text (model_dump example_manifest))
         \<and> clear_announce w' = (Inr u', w'') \<and> objects w'' = objects w')"
proof -
  have a: "announcement example_manifest = None"
    by (simp add: example_manifest_def)
  have c: "clear_announce_manifest announced_manifest = example_manifest"
    by (simp add: clear_announce_manifest_def announced_manifest_def example_manifest_def)
  have r: "\<not> read_fails announced_world MANIFEST_KEY"
    by (simp add: announced_world_def example_world_def)
  have wf: "\<not> write_fails (log_event (RemoteRead MANIFEST_KEY) announced_world) MANIFEST_KEY"
    by (simp add: log_event_def announced_world_def example_world_def)
  note T = clear_announce_idempotent [of announced_manifest announced_world]
  note E = clear_announce_idempotent [of example_manifest announced_world]
  from E [THEN conjunct2, THEN conjunct1] a
  have 1: "clear_announce_manifest example_manifest = example_manifest" by (rule mp)
  from T [THEN conjunct1] c
  have 2: "clear_announce_manifest (clear_announce_manifest announced_manifest) = example_manifest"
    by simp
  from T [THEN conjunct2, THEN conjunct2, THEN conjunct1, rule_format, OF load_announced_world] c
  have s: "clear_announce announced_world
             = save_manifest (log_event (RemoteRead MANIFEST_KEY) announced_world) example_manifest"
    by simp
  from save_manifest_writes [OF wf, of example_manifest] obtain u w' where
    sv: "save_manifest (log_event (RemoteRead MANIFEST_KEY) announced_world) example_manifest
           = (Inr u, w')" and
    ob: "objects w' = (objects (log_event (RemoteRead MANIFEST_KEY) announced_world))
           (MANIFEST_KEY \<mapsto> Text (model_dump example_manifest))"
    by blast
  from s sv have s': "clear_announce announced_world = (Inr u, w')" by simp
  from ob have ob': "objects w' MANIFEST_KEY = Some (Text (model_dump example_manifest))" by simp
  from r s' have "\<not> read_fails announced_world MANIFEST_KEY
      \<and> clear_announce announced_world = (Inr u, w')" by (rule conjI)
  from T [THEN conjunct2, THEN conjunct2, THEN conjunct2, rule_format, OF this]
  obtain u' w'' where t: "clear_announce w' = (Inr u', w'')" "objects w'' = objects w'"
    by blast
  have 3: "\<exists>u w' u' w''. clear_announce announced_world = (Inr u, w')
         \<and> objects w' MANIFEST_KEY = Some (Text (model_dump example_manifest))
         \<and> clear_announce w' = (Inr u', w'') \<and> objects w'' = objects w'"
    apply (rule exI [of _ u])
    apply (rule exI [of _ w'])
    apply (rule exI [of _ u'])
    apply (rule exI [of _ w''])
    apply (intro conjI)
    apply (rule s')
    apply (rule ob')
    apply (rule t(1))
    apply (rule t(2))
    done
  from a 1 2 3 show ?thesis by (intro conjI)
qed

text \<open>
  Claim C10. Setting and clearing the announcement leave the \<open>ota\<close> field as it
  was; a release on a valid platform succeeds and leaves the \<open>announcement\<close> field
  as it was, and so does any release that returns a manifest. The commands do the
  same to the manifest they load: \<open>announce\<close> and \<open>clear_announce\<close> save that
  manifest with the announcement alone changed, and when \<open>release\<close> succeeds the
  document it has written is that of a manifest with the announcement of the loaded one.
\<close>

theorem announcement_ota_independent:
  "ota (announce_manifest m t c r) = ota m
   \<and> ota (clear_announce_manifest m) = ota m
   \<and> (p \<in> set PLATFORMS \<longrightarrow>
        (\<exists>m'. release_manifest m v p f c' cl u md = Inr m' \<and> announcement m' = announcement m))
   \<and> (\<forall>m'. release_manifest m v p f c' cl u md = Inr m' \<longrightarrow> announcement m' = announcement m)
   \<and> (\<forall>m0 w1. load_manifest w = (Inr m0, w1) \<longrightarrow>
         announce w t c r = save_manifest w1 (announce_manifest m0 t c r)
       \<and> clear_announce w = save_manifest w1 (clear_announce_manifest m0))
   \<and> (\<forall>x w'. release w v p file f c' cl = (Inr x, w') \<longrightarrow>
         (\<exists>m0 m'. fst (load_manifest (log_event (LocalStat (path_str file)) w)) = Inr m0
            \<and> objects w' MANIFEST_KEY = Some (Text (model_dump m'))
            \<and> announcement m' = announcement m0 \<and> ota m' \<noteq> None))"
proof -
  have 1: "ota (announce_manifest m t c r) = ota m"
    by (simp add: announce_manifest_def)
  have 2: "ota (clear_announce_manifest m) = ota m"
    by (simp add: clear_announce_manifest_def)
  have 4: "\<forall>m'. release_manifest m v p f c' cl u md = Inr m' \<longrightarrow> announcement m' = announcement m"
    using release_manifest_Inr [THEN conjunct1] by blast
  have 3: "p \<in> set PLATFORMS \<longrightarrow>
        (\<exists>m'. release_manifest m v p f c' cl u md = Inr m' \<and> announcement m' = announcement m)"
    using release_manifest_total [of p m v f c' cl u md] 4 by blast
  have 5: "\<forall>m0 w1. load_manifest w = (Inr m0, w1) \<longrightarrow>
         announce w t c r = save_manifest w1 (announce_manifest m0 t c r)
       \<and> clear_announce w = save_manifest w1 (clear_announce_manifest m0)"
    by (simp add: announce_def clear_announce_def)
  have 6: "\<forall>x w'. release w v p file f c' cl = (Inr x, w') \<longrightarrow>
         (\<exists>m0 m'. fst (load_manifest (log_event (LocalStat (path_str file)) w)) = Inr m0
            \<and> objects w' MANIFEST_KEY = Some (Text (model_dump m'))
            \<and> announcement m' = announcement m0 \<and> ota m' \<noteq> None)"
  proof (intro allI impI)
    fix x w'
    assume "release w v p file f c' cl = (Inr x, w')"
    from release_saves [OF this] obtain m0 w1 durl h m' w3 where
      l: "load_manifest (log_event (LocalStat (path_str file)) w) = (Inr m0, w1)" and
      rm: "release_manifest m0 v p f c' cl durl h = Inr m'" and
      s: "save_manifest w3 m' = (Inr x, w')"
      by blast
    from save_manifest_Inr(1) [OF s]
    have o: "objects w' MANIFEST_KEY = Some (Text (model_dump m'))" by simp
    from release_manifest_Inr [OF rm]
    have an: "announcement m' = announcement m0" and ot: "ota m' \<noteq> None" by auto
    from l have l': "fst (load_manifest (log_event (LocalStat (path_str file)) w)) = Inr m0"
      by simp
    show "\<exists>m0 m'. fst (load_manifest (log_event (LocalStat (path_str file)) w)) = Inr m0
            \<and> objects w' MANIFEST_KEY = Some (Text (model_dump m'))
            \<and> announcement m' = announcement m0 \<and> ota m' \<noteq> None"
      apply (rule exI [of _ m0])
      apply (rule exI [of _ m'])
      apply (intro conjI)
      apply (rule l')
      apply (rule o)
      apply (rule an)
      apply (rule ot)
      done
  qed
  from 1 2 3 4 5 6 show ?thesis by (intro conjI)
qed

theorem announcement_ota_independent_witness:
  "ota (announce_manifest example_manifest ''Maintenance'' ''Tonight'' True) = Some example_ota
   \<and> ota (clear_announce_manifest announced_manifest) = Some example_ota
   \<and> ''android'' \<in> set PLATFORMS
   \<and> (\<exists>m'. release_manifest announced_manifest ''1.0.2'' ''android'' False [] ''Fixes'' ''u'' ''h'' = Inr m'
          \<and> announcement m' = Some example_announcement)
   \<and> announce example_world ''Maintenance'' ''Tonight'' True
       = save_manifest (log_event (RemoteRead MANIFEST_KEY) example_world) announced_manifest
   \<and> (\<exists>x w' m'. release announced_world ''1.0.2'' ''android'' example_file False [] ''Fixes'' = (Inr x, w')
          \<and> objects w' MANIFEST_KEY = Some (Text (model_dump m'))
          \<and> announcement m' = Some example_announcement)"
proof -
  have p: "''android'' \<in> set PLATFORMS" by (simp add: PLATFORMS_def)
  have e: "ota example_manifest = Some example_ota"
    "ota announced_manifest = Some example_ota"
    "announcement announced_manifest = Some example_announcement"
    by (simp_all add: example_manifest_def announced_manifest_def)
  have am: "announce_manifest example_manifest ''Maintenance'' ''Tonight'' True = announced_manifest"
    by (simp add: announce_manifest_def example_manifest_def announced_manifest_def
        example_announcement_def)
  note T1 = announcement_ota_independent
         [of example_manifest "''Maintenance''" "''Tonight''" True "''android''" "''1.0.2''" False "[]"
             "''Fixes''" "''u''" "''h''" example_world example_file]
  note T2 = announcement_ota_independent
         [of announced_manifest "''Maintenance''" "''Tonight''" True "''android''" "''1.0.2''" False "[]"
             "''Fixes''" "''u''" "''h''" announced_world example_file]
  from T1 [THEN conjunct1] e(1)
  have 1: "ota (announce_manifest example_manifest ''Maintenance'' ''Tonight'' True) = Some example_ota"
    by simp
  from T2 [THEN conjunct2, THEN conjunct1] e(2)
  have 2: "ota (clear_announce_manifest announced_manifest) = Some example_ota" by simp
  from T2 [THEN conjunct2, THEN conjunct2, THEN conjunct1] p e(3)
  have 3: "\<exists>m'. release_manifest announced_manifest ''1.0.2'' ''android'' False [] ''Fixes'' ''u'' ''h'' = Inr m'
          \<and> announcement m' = Some example_announcement"
    by simp
  from T1 [THEN conjunct2, THEN conjunct2, THEN conjunct2, THEN conjunct2, THEN conjunct1,
           rule_format, OF load_example_world, THEN conjunct1] am
  have 4: "announce example_world ''Maintenance'' ''Tonight'' True
       = save_manifest (log_event (RemoteRead MANIFEST_KEY) example_world) announced_manifest"
    by simp
  have f: "files announced_world (path_str example_file) = Some (RegularFile [0x50, 0x4b])"
    by (simp add: announced_world_def example_world_def example_file_def)
  have wf: "\<not> write_fails announced_world (release_key ''android'' ''1.0.2'' example_file)"
    "\<not> write_fails announced_world MANIFEST_KEY"
    by (simp_all add: announced_world_def example_world_def)
  have rd: "\<not> read_fails (log_event (LocalStat (path_str example_file)) announced_world) MANIFEST_KEY"
    and ob: "objects (log_event (LocalStat (path_str example_file)) announced_world) MANIFEST_KEY
              = Some (Text (model_dump announced_manifest))"
    by (simp_all add: log_event_def announced_world_def example_world_def)
  have wi: "within_max_length announced_manifest"
    by (simp add: within_max_length_def announced_manifest_def example_ota_def)
  from load_manifest_dumped [OF wi rd ob]
  have l: "fst (load_manifest (log_event (LocalStat (path_str example_file)) announced_world))
             = Inr announced_manifest"
    by simp
  from release_succeeds [OF p f l wf, of False "[]" "''Fixes''"] obtain x w' where
    r: "release announced_world ''1.0.2'' ''android'' example_file False [] ''Fixes'' = (Inr x, w')"
    by blast
  from T2 [THEN conjunct2, THEN conjunct2, THEN conjunct2, THEN conjunct2, THEN conjunct2,
           rule_format, OF r] l e(3)
  obtain m' where "objects w' MANIFEST_KEY = Some (Text (model_dump m'))"
    "announcement m' = Some example_announcement"
    by auto
  with r have 5: "\<exists>x w' m'. release announced_world ''1.0.2'' ''android'' example_file False [] ''Fixes'' = (Inr x, w')
          \<and> objects w' MANIFEST_KEY = Some (Text (model_dump m'))
          \<and> announcement m' = Some example_announcement"
    by (intro exI [of _ x] exI [of _ w'] exI [of _ m'] conjI)
  from 1 2 p 3 4 5 show ?thesis by (intro conjI)
qed

end
